theory Spec2Isabelle
  imports Complex_Main "HOL-Library.Multiset" "HOL-Library.Word"
begin

section \<open>The vector tile binding of node-mapnik (src/mapnik_vector_tile.cpp)\<close>

text \<open>
  A shallow embedding of the point query, the data accessors and the constructor of
  \<^verbatim>\<open>VectorTile\<close>. A C++ name that starts with an underscore is written with the
  suffix \<open>_impl\<close> (\<^verbatim>\<open>_query\<close> is \<open>query_impl\<close>, \<^verbatim>\<open>_querySort\<close> is \<open>querySort\<close>).
  Doubles are modelled by \<^typ>\<open>real\<close>: the embedded code only compares and copies them,
  and a NaN never passes the test \<^verbatim>\<open>distance >= 0\<close> that guards every use of a distance.
\<close>

subsection \<open>Geometries (mapnik::geometry)\<close>

type_synonym point = "real \<times> real"

record polygon =
  exterior_ring :: "point list"
  interior_rings :: "point list list"

datatype geometry =
    Geometry_empty
  | Point point
  | Line_string "point list"
  | Polygon polygon
  | Multi_point "point list"
  | Multi_line_string "point list list"
  | Multi_polygon "polygon list"
  | Geometry_collection "geometry list"

record feature =
  feature_id :: nat
  get_geometry :: geometry

record layer =
  get_name :: string
  get_features :: "feature list"

subsection \<open>Results of a query\<close>

text \<open>\<^verbatim>\<open>detail::p2p_result\<close>; its constructor sets distance -1 and the hit point (0,0).\<close>

record p2p_result =
  distance :: real
  x_hit :: real
  y_hit :: real

definition p2p_result_init :: p2p_result where
  "p2p_result_init = \<lparr>distance = - 1, x_hit = 0, y_hit = 0\<rparr>"

text \<open>
  \<^verbatim>\<open>query_result\<close> carries the same three numbers, the layer name and the feature;
  it is written as an extension of \<open>p2p_result\<close> so that the field names are the source's.
\<close>

record query_result = p2p_result +
  layer :: string
  feature :: feature

text \<open>\<^verbatim>\<open>query_hit\<close> of queryMany: a distance and the index of the feature.\<close>

record query_hit =
  hit_distance :: real
  hit_feature_id :: nat

text \<open>\<^verbatim>\<open>queryMany_result\<close>: two \<^verbatim>\<open>std::map\<close>s keyed by feature index and by point index.\<close>

record queryMany_result =
  features :: "nat \<rightharpoonup> query_result"
  hits :: "nat \<rightharpoonup> query_hit list"

subsection \<open>The tile held by a VectorTile (mapnik::vector_tile_impl::merc_tile)\<close>

text \<open>
  The registration, the raw protobuf bytes, the layer messages that a scan of the
  bytes for field 3 yields (in buffer order), and the two derived sets.
\<close>

record merc_tile =
  vt_x :: "32 word"
  vt_y :: "32 word"
  vt_z :: "32 word"
  vt_tile_size :: "32 word"
  vt_buffer_size :: "32 word"
  vt_buffer :: "8 word list"
  vt_layers :: "layer list"
  vt_painted_layers :: "string set"
  vt_empty_layers :: "string set"

text \<open>
  Modelled from the spec: the tile library's \<^verbatim>\<open>is_empty\<close> is not under src/; the spec has
  it as "no layers or all layers empty", and the binding documents it as "whether it has
  no layers and no features".
\<close>

definition is_empty :: "merc_tile \<Rightarrow> bool" where
  "is_empty t = list_all (\<lambda>l. get_features l = []) (vt_layers t)"

text \<open>
  Modelled from the spec: \<^verbatim>\<open>layer_reader(name, msg)\<close> of the tile library, a scan of the
  layer messages for the first one with that name.
\<close>

definition layer_reader :: "merc_tile \<Rightarrow> string \<Rightarrow> layer option" where
  "layer_reader t n = find (\<lambda>l. get_name l = n) (vt_layers t)"

text \<open>
  Modelled from the spec: \<^verbatim>\<open>VectorTile::clear\<close> is declared in the header, which is not
  under src/; it "resets to zero layers and clears derived sets".
\<close>

definition clear :: "merc_tile \<Rightarrow> merc_tile" where
  "clear t = t\<lparr>vt_buffer := [], vt_layers := [], vt_painted_layers := {}, vt_empty_layers := {}\<rparr>"

text \<open>The constructor \<^verbatim>\<open>VectorTile(z, x, y, tile_size, buffer_size)\<close>: a tile without data.\<close>

definition VectorTile :: "32 word \<Rightarrow> 32 word \<Rightarrow> 32 word \<Rightarrow> 32 word \<Rightarrow> 32 word \<Rightarrow> merc_tile" where
  "VectorTile z x y tile_size buffer_size =
     \<lparr>vt_x = x, vt_y = y, vt_z = z, vt_tile_size = tile_size, vt_buffer_size = buffer_size,
      vt_buffer = [], vt_layers = [], vt_painted_layers = {}, vt_empty_layers = {}\<rparr>"

subsection \<open>The libraries the binding calls\<close>

text \<open>
  mapnik, mapnik-vector-tile, zlib, node and the C++ standard library are not part of
  the repository: what the binding calls of them is a parameter of every definition.
  \<^item> \<open>forward\<close> and \<open>backward\<close>: \<^verbatim>\<open>proj_transform\<close> between EPSG:4326 and EPSG:3857;
    \<open>None\<close> when the call returns false.
  \<^item> \<open>mapnik_distance\<close>, \<open>point_to_segment_distance\<close>, \<open>pip\<close>: \<^verbatim>\<open>mapnik::distance\<close>,
    \<^verbatim>\<open>mapnik::point_to_segment_distance\<close> and \<^verbatim>\<open>mapnik::detail::pip\<close>.
  \<^item> \<open>features_at_point\<close>: the feature set of \<^verbatim>\<open>tile_datasource_pbf::features_at_point\<close>
    for a layer message, in the order \<^verbatim>\<open>next()\<close> yields it.
  \<^item> \<open>ds_features\<close>: the feature set of \<^verbatim>\<open>tile_datasource_pbf::features(q)\<close>, where the
    query box covers the given points padded by the tolerance and asks for the given fields.
  \<^item> \<open>std_sort\<close>, \<open>std_sort_hits\<close>: \<^verbatim>\<open>std::sort\<close> with a comparator, at the two element types.
  \<^item> \<open>merge_from_compressed_buffer\<close>: the tile after the call, and the message of the
    exception if it threw.
  \<^item> \<open>zlib_compress\<close>: the compressed bytes, or the message of the exception.
  \<^item> \<open>kMaxLength\<close>: \<^verbatim>\<open>node::Buffer::kMaxLength\<close>.
\<close>

record env =
  forward :: "point \<Rightarrow> point option"
  backward :: "point \<Rightarrow> point option"
  mapnik_distance :: "real \<Rightarrow> real \<Rightarrow> real \<Rightarrow> real \<Rightarrow> real"
  point_to_segment_distance :: "real \<Rightarrow> real \<Rightarrow> real \<Rightarrow> real \<Rightarrow> real \<Rightarrow> real \<Rightarrow> real"
  pip :: "real \<Rightarrow> real \<Rightarrow> real \<Rightarrow> real \<Rightarrow> real \<Rightarrow> real \<Rightarrow> bool"
  features_at_point :: "layer \<Rightarrow> point \<Rightarrow> real \<Rightarrow> feature list"
  ds_features :: "layer \<Rightarrow> point list \<Rightarrow> real \<Rightarrow> string list \<Rightarrow> feature list"
  std_sort :: "(query_result \<Rightarrow> query_result \<Rightarrow> bool) \<Rightarrow> query_result list \<Rightarrow> query_result list"
  std_sort_hits :: "(query_hit \<Rightarrow> query_hit \<Rightarrow> bool) \<Rightarrow> query_hit list \<Rightarrow> query_hit list"
  merge_from_compressed_buffer :: "merc_tile \<Rightarrow> 8 word list \<Rightarrow> merc_tile \<times> string option"
  zlib_compress :: "8 word list \<Rightarrow> bool \<Rightarrow> int \<Rightarrow> int \<Rightarrow> string + 8 word list"
  kMaxLength :: nat

subsection \<open>detail::p2p_distance\<close>

text \<open>The update every loop of the visitor makes with the result of a part.\<close>

definition p2p_closer :: "p2p_result \<Rightarrow> p2p_result \<Rightarrow> p2p_result" where
  "p2p_closer p2p p2p_sub =
     (if distance p2p_sub \<ge> 0 \<and> (distance p2p < 0 \<or> distance p2p_sub < distance p2p)
      then p2p\<lparr>x_hit := x_hit p2p_sub, y_hit := y_hit p2p_sub, distance := distance p2p_sub\<rparr>
      else p2p)"

definition p2p_point :: "env \<Rightarrow> real \<Rightarrow> real \<Rightarrow> point \<Rightarrow> p2p_result" where
  "p2p_point lib x y geom =
     p2p_result_init\<lparr>x_hit := fst geom, y_hit := snd geom,
                     distance := mapnik_distance lib (fst geom) (snd geom) x y\<rparr>"

definition p2p_multi_point :: "env \<Rightarrow> real \<Rightarrow> real \<Rightarrow> point list \<Rightarrow> p2p_result" where
  "p2p_multi_point lib x y geom =
     fold (\<lambda>pt p2p. p2p_closer p2p (p2p_point lib x y pt)) geom p2p_result_init"

text \<open>The pairs \<open>(geom[i-1], geom[i])\<close> for \<open>i\<close> from 1 below the number of points.\<close>

definition segments :: "point list \<Rightarrow> (point \<times> point) list" where
  "segments geom = zip geom (tl geom)"

definition p2p_segment :: "env \<Rightarrow> real \<Rightarrow> real \<Rightarrow> point \<times> point \<Rightarrow> p2p_result \<Rightarrow> p2p_result" where
  "p2p_segment lib x y seg p2p =
     (let pt0 = fst seg; pt1 = snd seg;
          dist = point_to_segment_distance lib x y (fst pt0) (snd pt0) (fst pt1) (snd pt1)
      in if dist \<ge> 0 \<and> (distance p2p < 0 \<or> dist < distance p2p)
         then p2p\<lparr>x_hit := fst pt0, y_hit := snd pt0, distance := dist\<rparr>
         else p2p)"

definition p2p_line_string :: "env \<Rightarrow> real \<Rightarrow> real \<Rightarrow> point list \<Rightarrow> p2p_result" where
  "p2p_line_string lib x y geom =
     (let p2p = p2p_result_init; num_points = length geom
      in if num_points > 1 then fold (p2p_segment lib x y) (segments geom) p2p else p2p)"

definition p2p_multi_line_string :: "env \<Rightarrow> real \<Rightarrow> real \<Rightarrow> point list list \<Rightarrow> p2p_result" where
  "p2p_multi_line_string lib x y geom =
     fold (\<lambda>line p2p. p2p_closer p2p (p2p_line_string lib x y line)) geom p2p_result_init"

text \<open>One pass over the consecutive pairs of a ring: every crossing flips \<open>inside\<close>.\<close>

definition pip_ring :: "env \<Rightarrow> real \<Rightarrow> real \<Rightarrow> point list \<Rightarrow> bool \<Rightarrow> bool" where
  "pip_ring lib x y ring inside =
     fold (\<lambda>seg inside.
             if pip lib (fst (fst seg)) (snd (fst seg)) (fst (snd seg)) (snd (snd seg)) x y
             then \<not> inside else inside)
          (segments ring) inside"

definition p2p_polygon :: "env \<Rightarrow> real \<Rightarrow> real \<Rightarrow> polygon \<Rightarrow> p2p_result" where
  "p2p_polygon lib x y geom =
     (let exterior = exterior_ring geom; num_points = length exterior; p2p = p2p_result_init
      in if num_points < 4 then p2p
         else let inside = pip_ring lib x y exterior False
              in if \<not> inside then p2p
                 else let inside' = fold (\<lambda>ring inside.
                                            if length ring < 4 then inside
                                            else pip_ring lib x y ring inside)
                                         (interior_rings geom) inside
                      in if inside' then p2p\<lparr>distance := 0\<rparr> else p2p)"

definition p2p_multi_polygon :: "env \<Rightarrow> real \<Rightarrow> real \<Rightarrow> polygon list \<Rightarrow> p2p_result" where
  "p2p_multi_polygon lib x y geom =
     fold (\<lambda>poly p2p. p2p_closer p2p (p2p_polygon lib x y poly)) geom p2p_result_init"

fun p2p_distance :: "env \<Rightarrow> real \<Rightarrow> real \<Rightarrow> geometry \<Rightarrow> p2p_result" where
  "p2p_distance lib x y Geometry_empty = p2p_result_init"
| "p2p_distance lib x y (Point geom) = p2p_point lib x y geom"
| "p2p_distance lib x y (Multi_point geom) = p2p_multi_point lib x y geom"
| "p2p_distance lib x y (Line_string geom) = p2p_line_string lib x y geom"
| "p2p_distance lib x y (Multi_line_string geom) = p2p_multi_line_string lib x y geom"
| "p2p_distance lib x y (Polygon geom) = p2p_polygon lib x y geom"
| "p2p_distance lib x y (Multi_polygon geom) = p2p_multi_polygon lib x y geom"
| "p2p_distance lib x y (Geometry_collection collection) =
     fold (\<lambda>geom p2p. p2p_closer p2p (p2p_distance lib x y geom)) collection p2p_result_init"

definition path_to_point_distance :: "env \<Rightarrow> geometry \<Rightarrow> real \<Rightarrow> real \<Rightarrow> p2p_result" where
  "path_to_point_distance lib geom x y = p2p_distance lib x y geom"

subsection \<open>VectorTile::_query\<close>

datatype exn = Runtime_error string

definition querySort :: "query_result \<Rightarrow> query_result \<Rightarrow> bool" where
  "querySort a b \<longleftrightarrow> distance a < distance b"

text \<open>
  The loop \<^verbatim>\<open>while ((feature = fs->next()))\<close> over one feature set: \<open>lname\<close> is the name
  stored in \<^verbatim>\<open>res.layer\<close>, \<open>arr\<close> the vector of results so far.
\<close>

fun query_featureset ::
  "env \<Rightarrow> real \<Rightarrow> real \<Rightarrow> real \<Rightarrow> string \<Rightarrow> feature list \<Rightarrow> query_result list
     \<Rightarrow> exn + query_result list" where
  "query_featureset lib x y tolerance lname [] arr = Inr arr"
| "query_featureset lib x y tolerance lname (f # fs) arr =
     (let p2p = path_to_point_distance lib (get_geometry f) x y
      in case backward lib (x_hit p2p, y_hit p2p) of
           None \<Rightarrow> Inl (Runtime_error ''could not reproject lon/lat to mercator'')
         | Some hit \<Rightarrow>
             if distance p2p \<ge> 0 \<and> distance p2p \<le> tolerance
             then query_featureset lib x y tolerance lname fs
                    (arr @ [\<lparr>distance = distance p2p, x_hit = fst hit, y_hit = snd hit,
                             layer = lname, feature = f\<rparr>])
             else query_featureset lib x y tolerance lname fs arr)"

text \<open>The loop \<^verbatim>\<open>while (item.next(3))\<close> over the layer messages of the tile.\<close>

fun query_layers ::
  "env \<Rightarrow> real \<Rightarrow> real \<Rightarrow> real \<Rightarrow> layer list \<Rightarrow> query_result list
     \<Rightarrow> exn + query_result list" where
  "query_layers lib x y tolerance [] arr = Inr arr"
| "query_layers lib x y tolerance (layer_msg # rest) arr =
     (case query_featureset lib x y tolerance (get_name layer_msg)
             (features_at_point lib layer_msg (x, y) tolerance) arr of
        Inl e \<Rightarrow> Inl e
      | Inr arr' \<Rightarrow> query_layers lib x y tolerance rest arr')"

definition query_impl ::
  "env \<Rightarrow> merc_tile \<Rightarrow> real \<Rightarrow> real \<Rightarrow> real \<Rightarrow> string \<Rightarrow> exn + query_result list" where
  "query_impl lib d lon lat tolerance layer_name =
     (if is_empty d then Inr []
      else case forward lib (lon, lat) of
        None \<Rightarrow> Inl (Runtime_error ''could not reproject lon/lat to mercator'')
      | Some pt \<Rightarrow>
          (case (if layer_name \<noteq> []
                 then (case layer_reader d layer_name of
                         Some layer_msg \<Rightarrow>
                           query_featureset lib (fst pt) (snd pt) tolerance layer_name
                             (features_at_point lib layer_msg pt tolerance) []
                       | None \<Rightarrow> Inr [])
                 else query_layers lib (fst pt) (snd pt) tolerance (vt_layers d) []) of
             Inl e \<Rightarrow> Inl e
           | Inr arr \<Rightarrow> Inr (std_sort lib querySort arr)))"

subsection \<open>VectorTile::_queryMany\<close>

definition queryManySort :: "query_hit \<Rightarrow> query_hit \<Rightarrow> bool" where
  "queryManySort a b \<longleftrightarrow> hit_distance a < hit_distance b"

text \<open>The loop that reprojects the query points; it throws at the first failure.\<close>

fun queryMany_points :: "env \<Rightarrow> point list \<Rightarrow> exn + point list" where
  "queryMany_points lib [] = Inr []"
| "queryMany_points lib (lonlat # rest) =
     (case forward lib lonlat of
        None \<Rightarrow> Inl (Runtime_error ''could not reproject lon/lat to mercator'')
      | Some pt \<Rightarrow>
          (case queryMany_points lib rest of
             Inl e \<Rightarrow> Inl e
           | Inr points \<Rightarrow> Inr (pt # points)))"

text \<open>
  The state of the loop over the feature set: the two maps and \<open>idx\<close>. The body for one
  feature and the point number \<open>p\<close>; \<^verbatim>\<open>std::map::insert\<close> keeps an entry that is there.
\<close>

type_synonym queryMany_state =
  "(nat \<rightharpoonup> query_result) \<times> (nat \<rightharpoonup> query_hit list) \<times> nat"

definition queryMany_point ::
  "env \<Rightarrow> real \<Rightarrow> string \<Rightarrow> feature \<Rightarrow> nat \<Rightarrow> nat \<times> point
     \<Rightarrow> (nat \<rightharpoonup> query_result) \<times> (nat \<rightharpoonup> query_hit list) \<times> bool
     \<Rightarrow> (nat \<rightharpoonup> query_result) \<times> (nat \<rightharpoonup> query_hit list) \<times> bool" where
  "queryMany_point lib tolerance lname f idx ppt st =
     (let p = fst ppt; pt = snd ppt; fmap = fst st; hmap = fst (snd st);
          p2p = path_to_point_distance lib (get_geometry f) (fst pt) (snd pt)
      in if distance p2p \<ge> 0 \<and> distance p2p \<le> tolerance
         then let res = \<lparr>distance = 0, x_hit = 0, y_hit = 0, layer = lname, feature = f\<rparr>;
                  hit = \<lparr>hit_distance = distance p2p, hit_feature_id = idx\<rparr>;
                  fmap' = (case fmap idx of None \<Rightarrow> fmap(idx \<mapsto> res) | Some r \<Rightarrow> fmap);
                  hmap' = (case hmap p of
                             None \<Rightarrow> hmap(p \<mapsto> [hit])
                           | Some pointHits \<Rightarrow> hmap(p \<mapsto> pointHits @ [hit]))
              in (fmap', hmap', True)
         else st)"

definition queryMany_feature ::
  "env \<Rightarrow> real \<Rightarrow> string \<Rightarrow> point list \<Rightarrow> feature \<Rightarrow> queryMany_state \<Rightarrow> queryMany_state" where
  "queryMany_feature lib tolerance lname points f st =
     (let fmap = fst st; hmap = fst (snd st); idx = snd (snd st);
          st' = fold (queryMany_point lib tolerance lname f idx)
                     (zip [0 ..< length points] points) (fmap, hmap, False);
          has_hit = snd (snd st')
      in (fst st', fst (snd st'), if has_hit then idx + 1 else idx))"

definition queryMany_impl ::
  "env \<Rightarrow> merc_tile \<Rightarrow> point list \<Rightarrow> real \<Rightarrow> string \<Rightarrow> string list
     \<Rightarrow> exn + queryMany_result" where
  "queryMany_impl lib d query tolerance layer_name field_names =
     (case layer_reader d layer_name of
        None \<Rightarrow> Inl (Runtime_error ''Could not find layer in vector tile'')
      | Some layer_msg \<Rightarrow>
          (case queryMany_points lib query of
             Inl e \<Rightarrow> Inl e
           | Inr points \<Rightarrow>
               let fs = ds_features lib layer_msg points tolerance field_names;
                   st = fold (queryMany_feature lib tolerance (get_name layer_msg) points) fs
                             (Map.empty, Map.empty, 0);
                   hmap = map_option (std_sort_hits lib queryManySort) \<circ> fst (snd st)
               in Inr \<lparr>features = fst st, hits = hmap\<rparr>))"

subsection \<open>The values and exceptions of the host (V8, Nan, node::Buffer)\<close>

text \<open>
  The JavaScript values the entry points inspect. An array, a function and a buffer
  are objects to \<^verbatim>\<open>IsObject\<close>; named properties are modelled on plain objects only.
\<close>

datatype v8_value =
    V8_Undefined
  | V8_Null
  | V8_Boolean bool
  | V8_Number real
  | V8_String string
  | V8_Array "v8_value list"
  | V8_Object "(string \<times> v8_value) list"
  | V8_Function
  | V8_Buffer "8 word list"

datatype js_error = Error string | TypeError string

text \<open>
  What a call leaves behind: an exception thrown into the caller, a value returned, or
  (last argument a function) the callback run after the queued work, with an error or
  with \<^verbatim>\<open>null\<close> and a value.
\<close>

datatype 'a outcome = Threw js_error | Returned 'a | Called_back "js_error + 'a"

text \<open>\<^verbatim>\<open>info[i]\<close>: undefined outside the arguments.\<close>

definition arg :: "v8_value list \<Rightarrow> int \<Rightarrow> v8_value" where
  "arg info i = (if 0 \<le> i \<and> i < int (length info) then info ! nat i else V8_Undefined)"

fun IsNumber :: "v8_value \<Rightarrow> bool" where
  "IsNumber (V8_Number r) = True"
| "IsNumber v = False"

fun IsString :: "v8_value \<Rightarrow> bool" where
  "IsString (V8_String s) = True"
| "IsString v = False"

fun IsArray :: "v8_value \<Rightarrow> bool" where
  "IsArray (V8_Array a) = True"
| "IsArray v = False"

fun IsFunction :: "v8_value \<Rightarrow> bool" where
  "IsFunction V8_Function = True"
| "IsFunction v = False"

fun IsObject :: "v8_value \<Rightarrow> bool" where
  "IsObject (V8_Object props) = True"
| "IsObject (V8_Array a) = True"
| "IsObject V8_Function = True"
| "IsObject (V8_Buffer b) = True"
| "IsObject v = False"

fun HasInstance :: "v8_value \<Rightarrow> bool" where
  "HasInstance (V8_Buffer b) = True"
| "HasInstance v = False"

fun Buffer_Data :: "v8_value \<Rightarrow> 8 word list" where
  "Buffer_Data (V8_Buffer b) = b"
| "Buffer_Data v = []"

fun Has :: "v8_value \<Rightarrow> string \<Rightarrow> bool" where
  "Has (V8_Object props) k = (map_of props k \<noteq> None)"
| "Has v k = False"

fun Get :: "v8_value \<Rightarrow> string \<Rightarrow> v8_value" where
  "Get (V8_Object props) k = (case map_of props k of Some v \<Rightarrow> v | None \<Rightarrow> V8_Undefined)"
| "Get v k = V8_Undefined"

fun NumberValue :: "v8_value \<Rightarrow> real" where
  "NumberValue (V8_Number r) = r"
| "NumberValue v = 0"

text \<open>
  \<^verbatim>\<open>IntegerValue\<close> of a number, a 64-bit integer: the fraction is cut off, towards zero,
  and a number outside the 64-bit range gives the nearest bound.
\<close>

fun IntegerValue :: "v8_value \<Rightarrow> int" where
  "IntegerValue (V8_Number r) =
     (if r \<ge> 9223372036854775808 then 9223372036854775807
      else if r \<le> - 9223372036854775808 then - 9223372036854775808
      else if r < 0 then \<lceil>r\<rceil> else \<lfloor>r\<rfloor>)"
| "IntegerValue v = 0"

text \<open>
  \<^verbatim>\<open>TOSTR\<close> hands out the characters as a C string: what is built or compared from it
  ends before the first NUL.
\<close>

fun TOSTR :: "v8_value \<Rightarrow> string" where
  "TOSTR (V8_String s) = takeWhile (\<lambda>c. c \<noteq> CHR 0x00) s"
| "TOSTR v = []"

text \<open>The conversion of the 64-bit result to \<^verbatim>\<open>int\<close> or \<^verbatim>\<open>std::int32_t\<close> keeps the low 32 bits.\<close>

definition to_int32 :: "int \<Rightarrow> 32 word" where
  "to_int32 i = word_of_int i"

subsection \<open>VectorTile::New\<close>

definition New_tile_size :: "v8_value \<Rightarrow> js_error + 32 word" where
  "New_tile_size options =
     (if Has options ''tile_size''
      then let opt = Get options ''tile_size''
           in if \<not> IsNumber opt
              then Inl (TypeError ''optional arg 'tile_size' must be a number'')
              else let tile_size_tmp = to_int32 (IntegerValue opt)
                   in if sint tile_size_tmp \<le> 0
                      then Inl (TypeError ''optional arg 'tile_size' must be greater then zero'')
                      else Inr tile_size_tmp
      else Inr 4096)"

definition New_buffer_size :: "v8_value \<Rightarrow> js_error + 32 word" where
  "New_buffer_size options =
     (if Has options ''buffer_size''
      then let opt = Get options ''buffer_size''
           in if \<not> IsNumber opt
              then Inl (TypeError ''optional arg 'buffer_size' must be a number'')
              else Inr (to_int32 (IntegerValue opt))
      else Inr 128)"

text \<open>
  The test \<^verbatim>\<open>static_cast<double>(tile_size) + (2 * buffer_size) <= 0\<close>: the product is
  formed in \<^verbatim>\<open>std::int32_t\<close>, where it wraps around, and only then converted.
\<close>

definition buffer_too_negative :: "32 word \<Rightarrow> 32 word \<Rightarrow> bool" where
  "buffer_too_negative tile_size buffer_size \<longleftrightarrow>
     real (unat tile_size) + real_of_int (sint (2 * buffer_size)) \<le> 0"

definition New :: "bool \<Rightarrow> v8_value list \<Rightarrow> js_error + merc_tile" where
  "New IsConstructCall info =
     (if \<not> IsConstructCall
      then Inl (Error ''Cannot call constructor as function, you need to use 'new' keyword'')
      else if length info < 3 then Inl (Error ''please provide a z, x, y'')
      else if \<not> IsNumber (arg info 0) \<or> \<not> IsNumber (arg info 1) \<or> \<not> IsNumber (arg info 2)
      then Inl (TypeError ''required parameters (z, x, and y) must be a integers'')
      else let z = to_int32 (IntegerValue (arg info 0));
               x = to_int32 (IntegerValue (arg info 1));
               y = to_int32 (IntegerValue (arg info 2))
           in if sint z < 0 \<or> sint x < 0 \<or> sint y < 0
              then Inl (TypeError
                     ''required parameters (z, x, and y) must be greater then or equal to zero'')
              else if length info > 3 \<and> \<not> IsObject (arg info 3)
              then Inl (TypeError ''optional fourth argument must be an options object'')
              else let options = (if length info > 3 then arg info 3 else V8_Object [])
                   in case New_tile_size options of
                        Inl e \<Rightarrow> Inl e
                      | Inr tile_size \<Rightarrow>
                          (case New_buffer_size options of
                             Inl e \<Rightarrow> Inl e
                           | Inr buffer_size \<Rightarrow>
                               if buffer_too_negative tile_size buffer_size
                               then Inl (Error ''too large of a negative buffer for tilesize'')
                               else Inr (VectorTile z x y tile_size buffer_size)))"

subsection \<open>VectorTile::queryMany\<close>

fun Array_elems :: "v8_value \<Rightarrow> v8_value list" where
  "Array_elems (V8_Array a) = a"
| "Array_elems v = []"

text \<open>\<^verbatim>\<open>array->Get(i)\<close>: undefined outside the array.\<close>

definition Array_Get :: "v8_value \<Rightarrow> nat \<Rightarrow> v8_value" where
  "Array_Get v i = (if i < length (Array_elems v) then Array_elems v ! i else V8_Undefined)"

text \<open>The loop that converts the array of pairs; it throws at the first bad item.\<close>

fun queryMany_query :: "v8_value list \<Rightarrow> js_error + point list" where
  "queryMany_query [] = Inr []"
| "queryMany_query (item # rest) =
     (if \<not> IsArray item then Inl (Error ''non-array item encountered'')
      else let lon = Array_Get item 0; lat = Array_Get item 1
           in if \<not> IsNumber lon \<or> \<not> IsNumber lat then Inl (Error ''lng lat must be numbers'')
              else case queryMany_query rest of
                     Inl e \<Rightarrow> Inl e
                   | Inr query \<Rightarrow> Inr ((NumberValue lon, NumberValue lat) # query))"

definition query_tolerance :: "v8_value \<Rightarrow> js_error + real" where
  "query_tolerance options =
     (if Has options ''tolerance''
      then let tol = Get options ''tolerance''
           in if \<not> IsNumber tol then Inl (TypeError ''tolerance value must be a number'')
              else Inr (NumberValue tol)
      else Inr 0)"

definition query_layer :: "v8_value \<Rightarrow> js_error + string" where
  "query_layer options =
     (if Has options ''layer''
      then let layer_id = Get options ''layer''
           in if \<not> IsString layer_id then Inl (TypeError ''layer value must be a string'')
              else Inr (TOSTR layer_id)
      else Inr [])"

definition queryMany_fields :: "v8_value \<Rightarrow> js_error + string list" where
  "queryMany_fields options =
     (if Has options ''fields''
      then let param_val = Get options ''fields''
           in if \<not> IsArray param_val
              then Inl (TypeError ''option 'fields' must be an array of strings'')
              else Inr (map TOSTR (filter IsString (Array_elems param_val)))
      else Inr [])"

text \<open>
  The entry point. Without a callback the result is returned and an exception of
  \<^verbatim>\<open>_queryMany\<close> is rethrown; with one, \<^verbatim>\<open>EIO_QueryMany\<close> stores the message of the
  exception and \<^verbatim>\<open>EIO_AfterQueryMany\<close> hands it, or the result, to the callback.
\<close>

definition queryMany :: "env \<Rightarrow> v8_value list \<Rightarrow> merc_tile \<Rightarrow> queryMany_result outcome" where
  "queryMany lib info d =
     (if length info < 2 \<or> \<not> IsArray (arg info 0)
      then Threw (Error
             ''expects lon,lat info + object with layer property referring to a layer name'')
      else case queryMany_query (Array_elems (arg info 0)) of
        Inl e \<Rightarrow> Threw e
      | Inr query \<Rightarrow>
          if \<not> IsObject (arg info 1)
          then Threw (TypeError ''optional second argument must be an options object'')
          else let options = arg info 1
               in (case query_tolerance options of
                    Inl e \<Rightarrow> Threw e
                  | Inr tolerance \<Rightarrow>
                 (case query_layer options of
                    Inl e \<Rightarrow> Threw e
                  | Inr layer_name \<Rightarrow>
                 (case queryMany_fields options of
                    Inl e \<Rightarrow> Threw e
                  | Inr field_names \<Rightarrow>
                      if layer_name = [] then Threw (TypeError ''options.layer is required'')
                      else if \<not> IsFunction (arg info (int (length info) - 1))
                      then (case queryMany_impl lib d query tolerance layer_name field_names of
                              Inl (Runtime_error what) \<Rightarrow> Threw (Error what)
                            | Inr result \<Rightarrow> Returned result)
                      else (case queryMany_impl lib d query tolerance layer_name field_names of
                              Inl (Runtime_error what) \<Rightarrow> Called_back (Inl (Error what))
                            | Inr result \<Rightarrow> Called_back (Inr result))))))"

subsection \<open>addData and setData\<close>

text \<open>
  \<^verbatim>\<open>_addDataSync\<close> and \<^verbatim>\<open>_setDataSync\<close> return undefined; the model returns the pending
  exception, if one was thrown, and the tile after the call.
\<close>

definition addDataSync_impl :: "env \<Rightarrow> v8_value list \<Rightarrow> merc_tile \<Rightarrow> js_error option \<times> merc_tile" where
  "addDataSync_impl lib info d =
     (if length info < 1 \<or> \<not> IsObject (arg info 0)
      then (Some (TypeError ''first argument must be a buffer object''), d)
      else let obj = arg info 0
           in if obj = V8_Null \<or> obj = V8_Undefined \<or> \<not> HasInstance obj
              then (Some (TypeError ''first arg must be a buffer object''), d)
              else let buffer_size = length (Buffer_Data obj)
                   in if buffer_size \<le> 0
                      then (Some (Error ''cannot accept empty buffer as protobuf''), d)
                      else case merge_from_compressed_buffer lib d (Buffer_Data obj) of
                             (d', None) \<Rightarrow> (None, d')
                           | (d', Some what) \<Rightarrow> (Some (Error what), d'))"

definition setDataSync_impl :: "env \<Rightarrow> v8_value list \<Rightarrow> merc_tile \<Rightarrow> js_error option \<times> merc_tile" where
  "setDataSync_impl lib info d =
     (if length info < 1 \<or> \<not> IsObject (arg info 0)
      then (Some (TypeError ''first argument must be a buffer object''), d)
      else let obj = arg info 0
           in if obj = V8_Null \<or> obj = V8_Undefined \<or> \<not> HasInstance obj
              then (Some (TypeError ''first arg must be a buffer object''), d)
              else let buffer_size = length (Buffer_Data obj)
                   in if buffer_size \<le> 0
                      then (Some (Error ''cannot accept empty buffer as protobuf''), d)
                      else case merge_from_compressed_buffer lib (clear d) (Buffer_Data obj) of
                             (d', None) \<Rightarrow> (None, d')
                           | (d', Some what) \<Rightarrow> (Some (Error what), d'))"

text \<open>
  \<^verbatim>\<open>vector_tile_adddata_baton_t\<close> and \<^verbatim>\<open>vector_tile_setdata_baton_t\<close> have the same fields;
  \<open>baton_d\<close> is the tile the pointer \<^verbatim>\<open>d\<close> refers to.
\<close>

record data_baton =
  baton_d :: merc_tile
  baton_data :: "8 word list"
  baton_dataLength :: nat
  baton_error :: bool
  baton_error_name :: string

definition EIO_AddData :: "env \<Rightarrow> data_baton \<Rightarrow> data_baton" where
  "EIO_AddData lib closure =
     (if baton_dataLength closure \<le> 0
      then closure\<lparr>baton_error := True,
                   baton_error_name := ''cannot accept empty buffer as protobuf''\<rparr>
      else case merge_from_compressed_buffer lib (baton_d closure) (baton_data closure) of
             (d', None) \<Rightarrow> closure\<lparr>baton_d := d'\<rparr>
           | (d', Some what) \<Rightarrow>
               closure\<lparr>baton_d := d', baton_error := True, baton_error_name := what\<rparr>)"

definition EIO_SetData :: "env \<Rightarrow> data_baton \<Rightarrow> data_baton" where
  "EIO_SetData lib closure =
     (if baton_dataLength closure \<le> 0
      then closure\<lparr>baton_error := True,
                   baton_error_name := ''cannot accept empty buffer as protobuf''\<rparr>
      else case merge_from_compressed_buffer lib (clear (baton_d closure)) (baton_data closure) of
             (d', None) \<Rightarrow> closure\<lparr>baton_d := d'\<rparr>
           | (d', Some what) \<Rightarrow>
               closure\<lparr>baton_d := d', baton_error := True, baton_error_name := what\<rparr>)"

text \<open>\<^verbatim>\<open>EIO_AfterAddData\<close> and \<^verbatim>\<open>EIO_AfterSetData\<close>: what the callback is called with.\<close>

definition EIO_AfterAddData :: "data_baton \<Rightarrow> js_error + unit" where
  "EIO_AfterAddData closure =
     (if baton_error closure then Inl (Error (baton_error_name closure)) else Inr ())"

definition EIO_AfterSetData :: "data_baton \<Rightarrow> js_error + unit" where
  "EIO_AfterSetData closure =
     (if baton_error closure then Inl (Error (baton_error_name closure)) else Inr ())"

definition addData :: "env \<Rightarrow> v8_value list \<Rightarrow> merc_tile \<Rightarrow> unit outcome \<times> merc_tile" where
  "addData lib info d =
     (if length info = 1
      then (case addDataSync_impl lib info d of
              (Some e, d') \<Rightarrow> (Threw e, d')
            | (None, d') \<Rightarrow> (Returned (), d'))
      else if \<not> IsFunction (arg info (int (length info) - 1))
      then (Threw (TypeError ''last argument must be a callback function''), d)
      else if length info < 1 \<or> \<not> IsObject (arg info 0)
      then (Threw (TypeError ''first argument must be a buffer object''), d)
      else let obj = arg info 0
           in if obj = V8_Null \<or> obj = V8_Undefined \<or> \<not> HasInstance obj
              then (Threw (TypeError ''first arg must be a buffer object''), d)
              else let closure = EIO_AddData lib
                         \<lparr>baton_d = d, baton_data = Buffer_Data obj,
                          baton_dataLength = length (Buffer_Data obj),
                          baton_error = False, baton_error_name = []\<rparr>
                   in (Called_back (EIO_AfterAddData closure), baton_d closure))"

definition setData :: "env \<Rightarrow> v8_value list \<Rightarrow> merc_tile \<Rightarrow> unit outcome \<times> merc_tile" where
  "setData lib info d =
     (if length info = 1
      then (case setDataSync_impl lib info d of
              (Some e, d') \<Rightarrow> (Threw e, d')
            | (None, d') \<Rightarrow> (Returned (), d'))
      else if \<not> IsFunction (arg info (int (length info) - 1))
      then (Threw (TypeError ''last argument must be a callback function''), d)
      else if length info < 1 \<or> \<not> IsObject (arg info 0)
      then (Threw (TypeError ''first argument must be a buffer object''), d)
      else let obj = arg info 0
           in if obj = V8_Null \<or> obj = V8_Undefined \<or> \<not> HasInstance obj
              then (Threw (TypeError ''first arg must be a buffer object''), d)
              else let closure = EIO_SetData lib
                         \<lparr>baton_d = d, baton_data = Buffer_Data obj,
                          baton_dataLength = length (Buffer_Data obj),
                          baton_error = False, baton_error_name = []\<rparr>
                   in (Called_back (EIO_AfterSetData closure), baton_d closure))"

subsection \<open>VectorTile::_getDataSync\<close>

text \<open>The constants of zlib.h.\<close>

definition Z_DEFAULT_COMPRESSION :: int where "Z_DEFAULT_COMPRESSION = - 1"
definition Z_DEFAULT_STRATEGY :: int where "Z_DEFAULT_STRATEGY = 0"
definition Z_FILTERED :: int where "Z_FILTERED = 1"
definition Z_HUFFMAN_ONLY :: int where "Z_HUFFMAN_ONLY = 2"
definition Z_RLE :: int where "Z_RLE = 3"
definition Z_FIXED :: int where "Z_FIXED = 4"

definition getData_compression :: "v8_value \<Rightarrow> js_error + bool" where
  "getData_compression options =
     (if Has options ''compression''
      then let param_val = Get options ''compression''
           in if \<not> IsString param_val
              then Inl (TypeError
                     ''option 'compression' must be a string, either 'gzip', or 'none' (default)'')
              else Inr (''gzip'' = TOSTR param_val)
      else Inr False)"

definition getData_level :: "v8_value \<Rightarrow> js_error + int" where
  "getData_level options =
     (if Has options ''level''
      then let param_val = Get options ''level''
           in if \<not> IsNumber param_val
              then Inl (TypeError
                     ''option 'level' must be an integer between 0 (no compression) and 9 (best compression) inclusive'')
              else let level = sint (to_int32 (IntegerValue param_val))
                   in if level < 0 \<or> level > 9
                      then Inl (TypeError
                             ''option 'level' must be an integer between 0 (no compression) and 9 (best compression) inclusive'')
                      else Inr level
      else Inr Z_DEFAULT_COMPRESSION)"

definition getData_strategy :: "v8_value \<Rightarrow> js_error + int" where
  "getData_strategy options =
     (if Has options ''strategy''
      then let param_val = Get options ''strategy''
           in if \<not> IsString param_val
              then Inl (TypeError
                     ''option 'strategy' must be one of the following strings: FILTERED, HUFFMAN_ONLY, RLE, FIXED, DEFAULT'')
              else if ''FILTERED'' = TOSTR param_val then Inr Z_FILTERED
              else if ''HUFFMAN_ONLY'' = TOSTR param_val then Inr Z_HUFFMAN_ONLY
              else if ''RLE'' = TOSTR param_val then Inr Z_RLE
              else if ''FIXED'' = TOSTR param_val then Inr Z_FIXED
              else if ''DEFAULT'' = TOSTR param_val then Inr Z_DEFAULT_STRATEGY
              else Inl (TypeError
                     ''option 'strategy' must be one of the following strings: FILTERED, HUFFMAN_ONLY, RLE, FIXED, DEFAULT'')
      else Inr Z_DEFAULT_STRATEGY)"

text \<open>The three option blocks in the order of the source: the first error is thrown.\<close>

definition getData_options :: "v8_value list \<Rightarrow> js_error + bool \<times> int \<times> int" where
  "getData_options info =
     (if length info > 0
      then if \<not> IsObject (arg info 0) then Inl (TypeError ''first arg must be a options object'')
           else let options = arg info 0
                in case getData_compression options of
                     Inl e \<Rightarrow> Inl e
                   | Inr compress \<Rightarrow>
                  (case getData_level options of
                     Inl e \<Rightarrow> Inl e
                   | Inr level \<Rightarrow>
                  (case getData_strategy options of
                     Inl e \<Rightarrow> Inl e
                   | Inr strategy \<Rightarrow> Inr (compress, level, strategy)))
      else Inr (False, Z_DEFAULT_COMPRESSION, Z_DEFAULT_STRATEGY))"

text \<open>The decimal digits that \<^verbatim>\<open>operator<<\<close> writes for a size.\<close>

fun show_nat :: "nat \<Rightarrow> string" where
  "show_nat n =
     (if n < 10 then [char_of (48 + n)] else show_nat (n div 10) @ [char_of (48 + n mod 10)])"

definition getDataSync_impl :: "env \<Rightarrow> v8_value list \<Rightarrow> merc_tile \<Rightarrow> js_error + 8 word list" where
  "getDataSync_impl lib info d =
     (case getData_options info of
        Inl e \<Rightarrow> Inl e
      | Inr (compress, level, strategy) \<Rightarrow>
          let raw_size = length (vt_buffer d)
          in if raw_size \<le> 0 then Inr []
             else if raw_size \<ge> kMaxLength lib
             then Inl (TypeError (''Data is too large to convert to a node::Buffer ''
                         @ ''('' @ show_nat raw_size @ '' raw bytes >= node::Buffer::kMaxLength)''))
             else if \<not> compress then Inr (vt_buffer d)
             else (case zlib_compress lib (vt_buffer d) True level strategy of
                     Inl what \<Rightarrow> Inl (TypeError what)
                   | Inr compressed \<Rightarrow> Inr compressed))"

subsection \<open>What the standard asks of std::sort\<close>

text \<open>
  For a comparator that is a strict weak ordering, \<^verbatim>\<open>std::sort\<close> leaves a permutation of
  the range in which no element is less than an earlier one. The order of equivalent
  elements is not promised.
\<close>

definition std_sort_contract ::
  "(('a \<Rightarrow> 'a \<Rightarrow> bool) \<Rightarrow> 'a list \<Rightarrow> 'a list) \<Rightarrow> ('a \<Rightarrow> 'a \<Rightarrow> bool) \<Rightarrow> bool" where
  "std_sort_contract srt cmp \<longleftrightarrow>
     (\<forall>xs. mset (srt cmp xs) = mset xs \<and> sorted_wrt (\<lambda>a b. \<not> cmp b a) (srt cmp xs))"

text \<open>A sort that meets it: an insertion sort that keeps equivalent elements in their order.\<close>

fun insert_before :: "('a \<Rightarrow> 'a \<Rightarrow> bool) \<Rightarrow> 'a \<Rightarrow> 'a list \<Rightarrow> 'a list" where
  "insert_before cmp a [] = [a]"
| "insert_before cmp a (b # bs) =
     (if cmp b a then b # insert_before cmp a bs else a # b # bs)"

definition insertion_sort :: "('a \<Rightarrow> 'a \<Rightarrow> bool) \<Rightarrow> 'a list \<Rightarrow> 'a list" where
  "insertion_sort cmp xs = foldr (insert_before cmp) xs []"

subsection \<open>std::sort as libstdc++ has it (bits/stl_algo.h, bits/stl_heap.h)\<close>

text \<open>
  The \<^verbatim>\<open>std::sort\<close> of the GNU standard library, which the addon is linked against
  on Linux: an introsort down to ranges of 16 elements (median of three, unguarded
  partition, heap sort below the depth limit) and a final insertion sort. The vector
  is a list, an iterator an index into it; \<open>lst\<close> stands for \<^verbatim>\<open>__last\<close> and \<open>cutpoint\<close>
  for \<^verbatim>\<open>__cut\<close>. The unguarded loops rely on the comparator being a strict weak
  ordering; where one would leave the vector the model gives \<open>None\<close>.
\<close>

definition iter_swap :: "'a list \<Rightarrow> nat \<Rightarrow> nat \<Rightarrow> 'a list" where
  "iter_swap xs i j = xs[i := xs ! j, j := xs ! i]"

definition move_median_to_first ::
  "('a \<Rightarrow> 'a \<Rightarrow> bool) \<Rightarrow> 'a list \<Rightarrow> nat \<Rightarrow> nat \<Rightarrow> nat \<Rightarrow> nat \<Rightarrow> 'a list" where
  "move_median_to_first cmp xs result a b c =
     (if cmp (xs ! a) (xs ! b)
      then (if cmp (xs ! b) (xs ! c) then iter_swap xs result b
            else if cmp (xs ! a) (xs ! c) then iter_swap xs result c
            else iter_swap xs result a)
      else if cmp (xs ! a) (xs ! c) then iter_swap xs result a
      else if cmp (xs ! b) (xs ! c) then iter_swap xs result c
      else iter_swap xs result b)"

function partition_up :: "('a \<Rightarrow> 'a \<Rightarrow> bool) \<Rightarrow> 'a list \<Rightarrow> nat \<Rightarrow> nat \<Rightarrow> nat option" where
  "partition_up cmp xs first pivot =
     (if first < length xs
      then (if cmp (xs ! first) (xs ! pivot) then partition_up cmp xs (first + 1) pivot
            else Some first)
      else None)"
  by pat_completeness auto
termination
  by (relation "measure (\<lambda>(cmp, xs, first, pivot). length xs - first)") auto

fun partition_down :: "('a \<Rightarrow> 'a \<Rightarrow> bool) \<Rightarrow> 'a list \<Rightarrow> nat \<Rightarrow> nat \<Rightarrow> nat option" where
  "partition_down cmp xs 0 pivot = (if cmp (xs ! pivot) (xs ! 0) then None else Some 0)"
| "partition_down cmp xs (Suc l) pivot =
     (if cmp (xs ! pivot) (xs ! Suc l) then partition_down cmp xs l pivot else Some (Suc l))"

function unguarded_partition ::
  "('a \<Rightarrow> 'a \<Rightarrow> bool) \<Rightarrow> 'a list \<Rightarrow> nat \<Rightarrow> nat \<Rightarrow> nat \<Rightarrow> (nat \<times> 'a list) option" where
  "unguarded_partition cmp xs first lst pivot =
     (case partition_up cmp xs first pivot of
        None \<Rightarrow> None
      | Some first' \<Rightarrow>
          if lst = 0 then None
          else (case partition_down cmp xs (lst - 1) pivot of
                  None \<Rightarrow> None
                | Some lst' \<Rightarrow>
                    if \<not> first' < lst' then Some (first', xs)
                    else unguarded_partition cmp (iter_swap xs first' lst') (first' + 1) lst' pivot))"
  by pat_completeness auto
termination
proof (relation "measure (\<lambda>(cmp, xs, first, lst, pivot). lst)", goal_cases)
  case 1
  show ?case by simp
next
  case (2 cmp xs first lst pivot first' lst')
  have "k' \<le> k" if "partition_down cmp xs k pivot = Some k'" for k k'
    using that by (induction k) (auto split: if_splits)
  with 2 show ?case by fastforce
qed

declare partition_up.simps [simp del] unguarded_partition.simps [simp del]


definition unguarded_partition_pivot ::
  "('a \<Rightarrow> 'a \<Rightarrow> bool) \<Rightarrow> 'a list \<Rightarrow> nat \<Rightarrow> nat \<Rightarrow> (nat \<times> 'a list) option" where
  "unguarded_partition_pivot cmp xs first lst =
     (let mid = first + (lst - first) div 2;
          xs' = move_median_to_first cmp xs first (first + 1) mid (lst - 1)
      in unguarded_partition cmp xs' (first + 1) lst first)"

function push_heap ::
  "('a \<Rightarrow> 'a \<Rightarrow> bool) \<Rightarrow> 'a list \<Rightarrow> nat \<Rightarrow> nat \<Rightarrow> nat \<Rightarrow> 'a \<Rightarrow> 'a list" where
  "push_heap cmp xs first holeIndex topIndex v =
     (let parent = (holeIndex - 1) div 2
      in if holeIndex > topIndex \<and> cmp (xs ! (first + parent)) v
         then push_heap cmp (xs[first + holeIndex := xs ! (first + parent)]) first parent topIndex v
         else xs[first + holeIndex := v])"
  by pat_completeness auto
termination
  by (relation "measure (\<lambda>(cmp, xs, first, holeIndex, topIndex, v). holeIndex)") auto

function adjust_heap_down ::
  "('a \<Rightarrow> 'a \<Rightarrow> bool) \<Rightarrow> 'a list \<Rightarrow> nat \<Rightarrow> nat \<Rightarrow> nat \<Rightarrow> nat \<Rightarrow> 'a list \<times> nat \<times> nat" where
  "adjust_heap_down cmp xs first holeIndex secondChild len =
     (if secondChild < (len - 1) div 2
      then let child = 2 * (secondChild + 1);
               child' = (if cmp (xs ! (first + child)) (xs ! (first + (child - 1)))
                         then child - 1 else child)
           in adjust_heap_down cmp (xs[first + holeIndex := xs ! (first + child')])
                first child' child' len
      else (xs, holeIndex, secondChild))"
  by pat_completeness auto
termination
  by (relation "measure (\<lambda>(cmp, xs, first, holeIndex, secondChild, len). len - secondChild)")
     (auto simp: Let_def)

text \<open>
  The lengths are signed in the source: for a length below 2, \<^verbatim>\<open>(__len - 2) / 2\<close> is not
  an index and the second test fails; \<open>2 \<le> len\<close> says so for natural numbers.
\<close>

definition adjust_heap ::
  "('a \<Rightarrow> 'a \<Rightarrow> bool) \<Rightarrow> 'a list \<Rightarrow> nat \<Rightarrow> nat \<Rightarrow> nat \<Rightarrow> 'a \<Rightarrow> 'a list" where
  "adjust_heap cmp xs first holeIndex len v =
     (let topIndex = holeIndex;
          (xs', holeIndex', secondChild) = adjust_heap_down cmp xs first holeIndex holeIndex len
      in if len mod 2 = 0 \<and> 2 \<le> len \<and> secondChild = (len - 2) div 2
         then let child = 2 * (secondChild + 1)
              in push_heap cmp (xs'[first + holeIndex' := xs' ! (first + (child - 1))])
                   first (child - 1) topIndex v
         else push_heap cmp xs' first holeIndex' topIndex v)"

fun make_heap_from :: "('a \<Rightarrow> 'a \<Rightarrow> bool) \<Rightarrow> 'a list \<Rightarrow> nat \<Rightarrow> nat \<Rightarrow> nat \<Rightarrow> 'a list" where
  "make_heap_from cmp xs first len 0 = adjust_heap cmp xs first 0 len (xs ! first)"
| "make_heap_from cmp xs first len (Suc parent) =
     make_heap_from cmp (adjust_heap cmp xs first (Suc parent) len (xs ! (first + Suc parent)))
       first len parent"

definition make_heap :: "('a \<Rightarrow> 'a \<Rightarrow> bool) \<Rightarrow> 'a list \<Rightarrow> nat \<Rightarrow> nat \<Rightarrow> 'a list" where
  "make_heap cmp xs first lst =
     (if lst - first < 2 then xs
      else make_heap_from cmp xs first (lst - first) ((lst - first - 2) div 2))"

definition pop_heap :: "('a \<Rightarrow> 'a \<Rightarrow> bool) \<Rightarrow> 'a list \<Rightarrow> nat \<Rightarrow> nat \<Rightarrow> nat \<Rightarrow> 'a list" where
  "pop_heap cmp xs first lst result =
     (let v = xs ! result
      in adjust_heap cmp (xs[result := xs ! first]) first 0 (lst - first) v)"

function sort_heap :: "('a \<Rightarrow> 'a \<Rightarrow> bool) \<Rightarrow> 'a list \<Rightarrow> nat \<Rightarrow> nat \<Rightarrow> 'a list" where
  "sort_heap cmp xs first lst =
     (if lst - first > 1 then sort_heap cmp (pop_heap cmp xs first (lst - 1) (lst - 1)) first (lst - 1)
      else xs)"
  by pat_completeness auto
termination
  by (relation "measure (\<lambda>(cmp, xs, first, lst). lst - first)") auto

definition partial_sort_all :: "('a \<Rightarrow> 'a \<Rightarrow> bool) \<Rightarrow> 'a list \<Rightarrow> nat \<Rightarrow> nat \<Rightarrow> 'a list" where
  "partial_sort_all cmp xs first lst = sort_heap cmp (make_heap cmp xs first lst) first lst"

function introsort_loop ::
  "('a \<Rightarrow> 'a \<Rightarrow> bool) \<Rightarrow> 'a list \<Rightarrow> nat \<Rightarrow> nat \<Rightarrow> nat \<Rightarrow> 'a list option" where
  "introsort_loop cmp xs first lst depth_limit =
     (if lst - first > 16
      then if depth_limit = 0 then Some (partial_sort_all cmp xs first lst)
           else (case unguarded_partition_pivot cmp xs first lst of
                   None \<Rightarrow> None
                 | Some (cutpoint, xs') \<Rightarrow>
                     (case introsort_loop cmp xs' cutpoint lst (depth_limit - 1) of
                        None \<Rightarrow> None
                      | Some xs'' \<Rightarrow> introsort_loop cmp xs'' first cutpoint (depth_limit - 1)))
      else Some xs)"
  by pat_completeness auto
termination
  by (relation "measure (\<lambda>(cmp, xs, first, lst, depth_limit). depth_limit)") auto

fun unguarded_linear_insert_from ::
  "('a \<Rightarrow> 'a \<Rightarrow> bool) \<Rightarrow> 'a list \<Rightarrow> 'a \<Rightarrow> nat \<Rightarrow> 'a list option" where
  "unguarded_linear_insert_from cmp xs v 0 = None"
| "unguarded_linear_insert_from cmp xs v (Suc next) =
     (if cmp v (xs ! next) then unguarded_linear_insert_from cmp (xs[Suc next := xs ! next]) v next
      else Some (xs[Suc next := v]))"

definition unguarded_linear_insert :: "('a \<Rightarrow> 'a \<Rightarrow> bool) \<Rightarrow> 'a list \<Rightarrow> nat \<Rightarrow> 'a list option" where
  "unguarded_linear_insert cmp xs lst = unguarded_linear_insert_from cmp xs (xs ! lst) lst"

definition move_backward_insert :: "'a list \<Rightarrow> nat \<Rightarrow> nat \<Rightarrow> 'a list" where
  "move_backward_insert xs first i =
     take first xs @ [xs ! i] @ take (i - first) (drop first xs) @ drop (i + 1) xs"

definition gnu_insertion_sort ::
  "('a \<Rightarrow> 'a \<Rightarrow> bool) \<Rightarrow> 'a list \<Rightarrow> nat \<Rightarrow> nat \<Rightarrow> 'a list option" where
  "gnu_insertion_sort cmp xs first lst =
     (if first = lst then Some xs
      else fold (\<lambda>i r. case r of
                         None \<Rightarrow> None
                       | Some ys \<Rightarrow>
                           if cmp (ys ! i) (ys ! first) then Some (move_backward_insert ys first i)
                           else unguarded_linear_insert cmp ys i)
                [first + 1 ..< lst] (Some xs))"

definition unguarded_insertion_sort ::
  "('a \<Rightarrow> 'a \<Rightarrow> bool) \<Rightarrow> 'a list \<Rightarrow> nat \<Rightarrow> nat \<Rightarrow> 'a list option" where
  "unguarded_insertion_sort cmp xs first lst =
     fold (\<lambda>i r. case r of None \<Rightarrow> None | Some ys \<Rightarrow> unguarded_linear_insert cmp ys i)
          [first ..< lst] (Some xs)"

definition final_insertion_sort ::
  "('a \<Rightarrow> 'a \<Rightarrow> bool) \<Rightarrow> 'a list \<Rightarrow> nat \<Rightarrow> nat \<Rightarrow> 'a list option" where
  "final_insertion_sort cmp xs first lst =
     (if lst - first > 16
      then (case gnu_insertion_sort cmp xs first (first + 16) of
              None \<Rightarrow> None
            | Some ys \<Rightarrow> unguarded_insertion_sort cmp ys (first + 16) lst)
      else gnu_insertion_sort cmp xs first lst)"

fun lg :: "nat \<Rightarrow> nat" where
  "lg n = (if n < 2 then 0 else Suc (lg (n div 2)))"

declare lg.simps [simp del] push_heap.simps [simp del] adjust_heap_down.simps [simp del]
  sort_heap.simps [simp del] introsort_loop.simps [simp del]

definition gnu_sort :: "('a \<Rightarrow> 'a \<Rightarrow> bool) \<Rightarrow> 'a list \<Rightarrow> 'a list" where
  "gnu_sort cmp xs =
     (if xs = [] then xs
      else case introsort_loop cmp xs 0 (length xs) (lg (length xs) * 2) of
             None \<Rightarrow> xs
           | Some ys \<Rightarrow> (case final_insertion_sort cmp ys 0 (length ys) of
                           None \<Rightarrow> xs
                         | Some zs \<Rightarrow> zs))"

subsection \<open>The specification of the point query\<close>

text \<open>The distance the query computes for a feature, at the reprojected point.\<close>

definition feature_distance :: "env \<Rightarrow> real \<Rightarrow> real \<Rightarrow> feature \<Rightarrow> real" where
  "feature_distance lib x y f = distance (path_to_point_distance lib (get_geometry f) x y)"

text \<open>
  The features a query looks at, each with the layer name it reports, in the order of
  the scan: the feature set of the named layer, or of every layer in buffer order.
\<close>

definition scanned_features ::
  "env \<Rightarrow> merc_tile \<Rightarrow> point \<Rightarrow> real \<Rightarrow> string \<Rightarrow> (string \<times> feature) list" where
  "scanned_features lib d pt tolerance layer_name =
     (if is_empty d then []
      else if layer_name \<noteq> []
      then (case layer_reader d layer_name of
              None \<Rightarrow> []
            | Some l \<Rightarrow> map (\<lambda>f. (layer_name, f)) (features_at_point lib l pt tolerance))
      else concat (map (\<lambda>l. map (\<lambda>f. (get_name l, f)) (features_at_point lib l pt tolerance))
                       (vt_layers d)))"

text \<open>
  The record a hit is reported with. (When the back projection fails the query throws
  and reports nothing; the second case is never looked at then.)
\<close>

definition query_result_of :: "env \<Rightarrow> real \<Rightarrow> real \<Rightarrow> string \<times> feature \<Rightarrow> query_result" where
  "query_result_of lib x y lf =
     (let p2p = path_to_point_distance lib (get_geometry (snd lf)) x y;
          hit = (case backward lib (x_hit p2p, y_hit p2p) of
                   Some hit \<Rightarrow> hit
                 | None \<Rightarrow> (x_hit p2p, y_hit p2p))
      in \<lparr>distance = distance p2p, x_hit = fst hit, y_hit = snd hit,
          layer = fst lf, feature = snd lf\<rparr>)"

definition within_tolerance :: "env \<Rightarrow> real \<Rightarrow> real \<Rightarrow> real \<Rightarrow> string \<times> feature \<Rightarrow> bool" where
  "within_tolerance lib x y tolerance lf \<longleftrightarrow>
     0 \<le> feature_distance lib x y (snd lf) \<and> feature_distance lib x y (snd lf) \<le> tolerance"

text \<open>
  The spec's order of the hits: ascending by distance, ties in the order of the scan
  (\<open>sort_key\<close> is the stable insertion sort of the library).
\<close>

definition stable_hits ::
  "env \<Rightarrow> merc_tile \<Rightarrow> real \<Rightarrow> real \<Rightarrow> real \<Rightarrow> string \<Rightarrow> (string \<times> feature) list" where
  "stable_hits lib d x y tolerance layer_name =
     sort_key (\<lambda>lf. feature_distance lib x y (snd lf))
       (filter (within_tolerance lib x y tolerance)
          (scanned_features lib d (x, y) tolerance layer_name))"

definition query_sorted_stable ::
  "env \<Rightarrow> merc_tile \<Rightarrow> real \<Rightarrow> real \<Rightarrow> real \<Rightarrow> string \<Rightarrow> bool" where
  "query_sorted_stable lib d lon lat tolerance layer_name \<longleftrightarrow>
     (\<forall>x y res. forward lib (lon, lat) = Some (x, y) \<longrightarrow>
        query_impl lib d lon lat tolerance layer_name = Inr res \<longrightarrow>
        res = map (query_result_of lib x y) (stable_hits lib d x y tolerance layer_name))"

text \<open>A wider tolerance never shrinks the feature set a layer hands to the query.\<close>

definition features_at_point_monotone :: "env \<Rightarrow> bool" where
  "features_at_point_monotone lib \<longleftrightarrow>
     (\<forall>l pt t1 t2. 0 \<le> t1 \<longrightarrow> t1 \<le> t2 \<longrightarrow>
        set (features_at_point lib l pt t1) \<subseteq> set (features_at_point lib l pt t2))"

text \<open>
  Even-odd containment in a ring, and in a polygon: in the exterior ring, which has at
  least 4 points, and in an even number of the interior rings that have at least 4.
\<close>

definition crossings :: "env \<Rightarrow> real \<Rightarrow> real \<Rightarrow> point list \<Rightarrow> nat" where
  "crossings lib x y ring =
     length (filter (\<lambda>seg. pip lib (fst (fst seg)) (snd (fst seg)) (fst (snd seg)) (snd (snd seg)) x y)
               (segments ring))"

definition ring_contains :: "env \<Rightarrow> real \<Rightarrow> real \<Rightarrow> point list \<Rightarrow> bool" where
  "ring_contains lib x y ring \<longleftrightarrow> odd (crossings lib x y ring)"

definition polygon_contains :: "env \<Rightarrow> real \<Rightarrow> real \<Rightarrow> polygon \<Rightarrow> bool" where
  "polygon_contains lib x y poly \<longleftrightarrow>
     length (exterior_ring poly) \<ge> 4 \<and> ring_contains lib x y (exterior_ring poly) \<and>
     even (length (filter (ring_contains lib x y)
                     (filter (\<lambda>ring. length ring \<ge> 4) (interior_rings poly))))"

subsection \<open>A sample environment and sample tiles\<close>

text \<open>
  A planar stand-in for the libraries: the projection is the identity, the distances
  and the crossing test are the formulas of mapnik's geom_util.hpp, a feature set holds
  every feature of its layer, a merge appends the bytes, the compression puts the gzip
  magic number in front, and the sort is the stable insertion sort.
\<close>

definition sample_distance :: "real \<Rightarrow> real \<Rightarrow> real \<Rightarrow> real \<Rightarrow> real" where
  "sample_distance x0 y0 x1 y1 = sqrt ((x0 - x1) * (x0 - x1) + (y0 - y1) * (y0 - y1))"

definition sample_segment_distance ::
  "real \<Rightarrow> real \<Rightarrow> real \<Rightarrow> real \<Rightarrow> real \<Rightarrow> real \<Rightarrow> real" where
  "sample_segment_distance x y ax ay bx by =
     (let len2 = (ax - bx) * (ax - bx) + (ay - by) * (ay - by)
      in if len2 = 0 then sample_distance x y ax ay
         else let r = ((x - ax) * (bx - ax) + (y - ay) * (by - ay)) / len2
              in if r < 0 then sample_distance x y ax ay
                 else if r > 1 then sample_distance x y bx by
                 else \<bar>((ay - y) * (bx - ax) - (ax - x) * (by - ay)) / len2\<bar> * sqrt len2)"

definition sample_pip :: "real \<Rightarrow> real \<Rightarrow> real \<Rightarrow> real \<Rightarrow> real \<Rightarrow> real \<Rightarrow> bool" where
  "sample_pip x0 y0 x1 y1 x y \<longleftrightarrow>
     ((y1 \<le> y \<and> y < y0) \<or> (y0 \<le> y \<and> y < y1)) \<and> x < (x0 - x1) * (y - y1) / (y0 - y1) + x1"

definition sample_lib :: env where
  "sample_lib =
     \<lparr>forward = (\<lambda>pt. Some pt),
      backward = (\<lambda>pt. Some pt),
      mapnik_distance = sample_distance,
      point_to_segment_distance = sample_segment_distance,
      pip = sample_pip,
      features_at_point = (\<lambda>l pt tolerance. get_features l),
      ds_features = (\<lambda>l points tolerance names. get_features l),
      std_sort = insertion_sort,
      std_sort_hits = insertion_sort,
      merge_from_compressed_buffer = (\<lambda>t buf. (t\<lparr>vt_buffer := vt_buffer t @ buf\<rparr>, None)),
      zlib_compress = (\<lambda>buf gzip level strategy. Inr (31 # 139 # buf)),
      kMaxLength = 1073741823\<rparr>"

text \<open>The same, with the sort of libstdc++.\<close>

definition gnu_lib :: env where
  "gnu_lib = sample_lib\<lparr>std_sort := gnu_sort\<rparr>"

text \<open>A tile with one layer: a point at distance 1 of the origin, then two points on it.\<close>

definition feature_a :: feature where
  "feature_a = \<lparr>feature_id = 1, get_geometry = Point (0, 0)\<rparr>"

definition feature_b :: feature where
  "feature_b = \<lparr>feature_id = 2, get_geometry = Point (0, 0)\<rparr>"

definition feature_c :: feature where
  "feature_c = \<lparr>feature_id = 3, get_geometry = Point (1, 0)\<rparr>"

definition points_tile :: merc_tile where
  "points_tile =
     (VectorTile 0 0 0 4096 128)
       \<lparr>vt_buffer := [26, 0],
        vt_layers := [\<lparr>get_name = ''places'', get_features = [feature_c, feature_a, feature_b]\<rparr>]\<rparr>"

text \<open>
  A tile with one layer of twenty point features, all at the origin, numbered in the
  order of the layer; \<open>tied_hit i\<close> is the record the query reports for number \<open>i\<close>.
\<close>

definition tied_feature :: "nat \<Rightarrow> feature" where
  "tied_feature i = \<lparr>feature_id = i, get_geometry = Point (0, 0)\<rparr>"

definition tied_tile :: merc_tile where
  "tied_tile =
     (VectorTile 0 0 0 4096 128)
       \<lparr>vt_buffer := [26, 0],
        vt_layers := [\<lparr>get_name = ''places'',
                      get_features = map tied_feature
                        [0, 1, 2, 3, 4, 5, 6, 7, 8, 9, 10, 11, 12, 13, 14, 15, 16, 17, 18, 19]\<rparr>]\<rparr>"

definition tied_hit :: "nat \<Rightarrow> query_result" where
  "tied_hit i = query_result_of gnu_lib 0 0 (''places'', tied_feature i)"

text \<open>A square around the origin with a hole, and a ring too short to count.\<close>

definition square :: polygon where
  "square =
     \<lparr>exterior_ring = [(- 2, - 2), (2, - 2), (2, 2), (- 2, 2), (- 2, - 2)],
      interior_rings = [[(1, 1), (1, 1), (1, 1)],
                        [(- 1, - 1), (- 1, 1), (1, 1), (1, - 1), (- 1, - 1)]]\<rparr>"

subsection \<open>The specification of a registration and of the arguments of queryMany\<close>

text \<open>The spec's condition on a registration, in exact integers: tile_size + 2*buffer_size > 0.\<close>

definition registration_valid :: "32 word \<Rightarrow> 32 word \<Rightarrow> bool" where
  "registration_valid tile_size buffer_size \<longleftrightarrow> 0 < int (unat tile_size) + 2 * sint buffer_size"

text \<open>
  The converted arguments of a call of queryMany whose conversion does not throw:
  the points, the tolerance, the layer name (empty when none was given) and the fields.
\<close>

definition queryMany_arguments ::
  "v8_value list \<Rightarrow> (point list \<times> real \<times> string \<times> string list) option" where
  "queryMany_arguments info =
     (if length info \<ge> 2 \<and> IsArray (arg info 0) \<and> IsObject (arg info 1)
      then (case (queryMany_query (Array_elems (arg info 0)), query_tolerance (arg info 1),
                  query_layer (arg info 1), queryMany_fields (arg info 1)) of
              (Inr query, Inr tolerance, Inr layer_name, Inr field_names) \<Rightarrow>
                Some (query, tolerance, layer_name, field_names)
            | other \<Rightarrow> None)
      else None)"

subsection \<open>Sample polygons and sample calls\<close>

text \<open>A ring of three points, a feature that is the square, and argument lists.\<close>

definition triangle :: polygon where
  "triangle = \<lparr>exterior_ring = [(- 2, - 2), (2, 2), (- 2, - 2)], interior_rings = []\<rparr>"

definition park :: feature where
  "park = \<lparr>feature_id = 4, get_geometry = Polygon square\<rparr>"

definition empty_call :: "v8_value list" where
  "empty_call = [V8_Buffer []]"

definition layer_bytes :: "8 word list" where
  "layer_bytes = [26, 0]"

definition gzip_call :: "v8_value list" where
  "gzip_call = [V8_Object [(''compression'', V8_String ''gzip''), (''level'', V8_Number 9),
                           (''strategy'', V8_String ''RLE'')]]"

definition no_layer_call :: "v8_value list" where
  "no_layer_call =
     [V8_Array [V8_Array [V8_Number 0, V8_Number 0]], V8_Object [(''tolerance'', V8_Number 1)]]"

definition no_roads_call :: "v8_value list" where
  "no_roads_call =
     [V8_Array [V8_Array [V8_Number 0, V8_Number 0]], V8_Object [(''layer'', V8_String ''roads'')]]"

section \<open>Properties\<close>

subsection \<open>The scan of a query\<close>

lemma query_featureset_Inr:
  "query_featureset lib x y tol lname fs arr = Inr res \<Longrightarrow>
   res = arr @ map (query_result_of lib x y)
                   (filter (within_tolerance lib x y tol) (map (Pair lname) fs))"
proof (induction fs arbitrary: arr)
  case Nil
  then show ?case by simp
next
  case (Cons f fs)
  show ?case
  proof (cases "backward lib (x_hit (path_to_point_distance lib (get_geometry f) x y),
                              y_hit (path_to_point_distance lib (get_geometry f) x y))")
    case None
    with Cons.prems show ?thesis by (simp add: Let_def)
  next
    case (Some hit)
    show ?thesis
    proof (cases "within_tolerance lib x y tol (lname, f)")
      case True
      with Cons.prems Some
      have "query_featureset lib x y tol lname fs (arr @ [query_result_of lib x y (lname, f)]) = Inr res"
        by (simp add: Let_def within_tolerance_def feature_distance_def query_result_of_def)
      from Cons.IH [OF this] True show ?thesis by simp
    next
      case False
      with Cons.prems Some
      have "query_featureset lib x y tol lname fs arr = Inr res"
        by (auto simp add: Let_def within_tolerance_def feature_distance_def)
      from Cons.IH [OF this] False show ?thesis by simp
    qed
  qed
qed

lemma query_layers_Inr:
  "query_layers lib x y tol ls arr = Inr res \<Longrightarrow>
   res = arr @ map (query_result_of lib x y)
                   (filter (within_tolerance lib x y tol)
                      (concat (map (\<lambda>l. map (Pair (get_name l)) (features_at_point lib l (x, y) tol)) ls)))"
proof (induction ls arbitrary: arr)
  case Nil
  then show ?case by simp
next
  case (Cons l ls)
  from Cons.prems obtain arr' where
    a: "query_featureset lib x y tol (get_name l) (features_at_point lib l (x, y) tol) arr = Inr arr'"
    and b: "query_layers lib x y tol ls arr' = Inr res"
    by (auto split: sum.splits)
  from query_featureset_Inr [OF a] Cons.IH [OF b] show ?case by simp
qed

lemma scanned_features_empty: "is_empty d \<Longrightarrow> scanned_features lib d pt tol n = []"
  by (simp add: scanned_features_def)

text \<open>What a query that returns has sorted: the hits of the scan, in scan order.\<close>

lemma query_impl_scan:
  assumes "forward lib (lon, lat) = Some (x, y)"
      and "query_impl lib d lon lat tol layer_name = Inr res"
  shows "res = std_sort lib querySort
                 (map (query_result_of lib x y)
                    (filter (within_tolerance lib x y tol)
                       (scanned_features lib d (x, y) tol layer_name))) \<or> (is_empty d \<and> res = [])"
proof (cases "is_empty d")
  case True
  with assms show ?thesis by (simp add: query_impl_def)
next
  case False
  show ?thesis
  proof (cases "layer_name = []")
    case True
    with False assms obtain arr where
      a: "query_layers lib x y tol (vt_layers d) [] = Inr arr" and r: "res = std_sort lib querySort arr"
      by (auto simp: query_impl_def split: sum.splits)
    from query_layers_Inr [OF a] r True False show ?thesis
      by (simp add: scanned_features_def)
  next
    case named: False
    show ?thesis
    proof (cases "layer_reader d layer_name")
      case None
      with named False assms show ?thesis
        by (auto simp: query_impl_def scanned_features_def)
    next
      case (Some l)
      with named False assms obtain arr where
        a: "query_featureset lib x y tol layer_name (features_at_point lib l (x, y) tol) [] = Inr arr"
        and r: "res = std_sort lib querySort arr"
        by (auto simp: query_impl_def split: sum.splits)
      from query_featureset_Inr [OF a] r named False Some show ?thesis
        by (simp add: scanned_features_def)
    qed
  qed
qed

lemma not_querySort: "(\<not> querySort b a) = (distance a \<le> distance b)"
  by (auto simp: querySort_def)

lemma query_impl_mset:
  assumes "std_sort_contract (std_sort lib) querySort"
      and "forward lib (lon, lat) = Some (x, y)"
      and "query_impl lib d lon lat tol layer_name = Inr res"
  shows "mset res = mset (map (query_result_of lib x y)
                            (filter (within_tolerance lib x y tol)
                               (scanned_features lib d (x, y) tol layer_name)))"
proof -
  from query_impl_scan [OF assms(2,3)] show ?thesis
  proof
    assume "res = std_sort lib querySort
                    (map (query_result_of lib x y)
                       (filter (within_tolerance lib x y tol)
                          (scanned_features lib d (x, y) tol layer_name)))"
    with assms(1) show ?thesis by (simp add: std_sort_contract_def)
  next
    assume "is_empty d \<and> res = []"
    then show ?thesis by (simp add: scanned_features_empty)
  qed
qed

lemma query_impl_sorted:
  assumes "std_sort_contract (std_sort lib) querySort"
      and "query_impl lib d lon lat tol layer_name = Inr res"
  shows "sorted_wrt (\<lambda>a b. distance a \<le> distance b) res"
proof (cases "is_empty d")
  case True
  with assms(2) show ?thesis by (simp add: query_impl_def)
next
  case False
  with assms(2) obtain arr where "res = std_sort lib querySort arr"
    by (auto simp: query_impl_def split: option.splits sum.splits if_splits)
  with assms(1) show ?thesis by (simp add: std_sort_contract_def not_querySort)
qed

text \<open>The query returns whenever the two projections do.\<close>

lemma query_featureset_returns:
  "\<forall>p. backward lib p \<noteq> None \<Longrightarrow> \<exists>res. query_featureset lib x y tol lname fs arr = Inr res"
proof (induction fs arbitrary: arr)
  case Nil
  then show ?case by simp
next
  case (Cons f fs)
  then show ?case by (auto simp: Let_def split: option.splits)
qed

lemma query_layers_returns:
  "\<forall>p. backward lib p \<noteq> None \<Longrightarrow> \<exists>res. query_layers lib x y tol ls arr = Inr res"
proof (induction ls arbitrary: arr)
  case Nil
  then show ?case by simp
next
  case (Cons l ls)
  from query_featureset_returns [OF Cons.prems] obtain arr' where
    "query_featureset lib x y tol (get_name l) (features_at_point lib l (x, y) tol) arr = Inr arr'"
    by blast
  with Cons.IH [OF Cons.prems, of arr'] show ?case by simp
qed

lemma query_impl_returns:
  assumes "\<forall>p. backward lib p \<noteq> None" and "forward lib (lon, lat) \<noteq> None"
  shows "\<exists>res. query_impl lib d lon lat tol layer_name = Inr res"
proof -
  from assms(2) obtain pt where pt: "forward lib (lon, lat) = Some pt" by blast
  obtain a where a: "query_layers lib (fst pt) (snd pt) tol (vt_layers d) [] = Inr a"
    using query_layers_returns [OF assms(1)] by blast
  have b: "\<exists>b. query_featureset lib (fst pt) (snd pt) tol layer_name fs [] = Inr b" for fs
    using query_featureset_returns [OF assms(1)] by blast
  show ?thesis
  proof (cases "layer_reader d layer_name")
    case None
    with pt a show ?thesis by (simp add: query_impl_def)
  next
    case (Some l)
    from b [of "features_at_point lib l pt tol"] obtain r where
      "query_featureset lib (fst pt) (snd pt) tol layer_name (features_at_point lib l pt tol) [] = Inr r"
      by blast
    with pt a Some show ?thesis by (simp add: query_impl_def)
  qed
qed

subsection \<open>The sample sort meets the contract\<close>

lemma insert_before_mset: "mset (insert_before cmp a xs) = add_mset a (mset xs)"
  by (induction xs) auto

lemma insertion_sort_mset: "mset (insertion_sort cmp xs) = mset xs"
  by (induction xs) (auto simp: insertion_sort_def insert_before_mset)

lemma insert_before_set: "set (insert_before cmp a xs) = insert a (set xs)"
  by (induction xs) auto

lemma insert_before_sorted:
  "sorted_wrt (\<lambda>a b. distance a \<le> distance b) xs \<Longrightarrow>
   sorted_wrt (\<lambda>a b. distance a \<le> distance b) (insert_before querySort a xs)"
  by (induction xs) (auto simp: insert_before_set querySort_def)

lemma insertion_sort_contract: "std_sort_contract insertion_sort querySort"
proof -
  have "sorted_wrt (\<lambda>a b. distance a \<le> distance b) (insertion_sort querySort xs)" for xs
    by (induction xs) (auto simp: insertion_sort_def intro: insert_before_sorted)
  then show ?thesis
    by (simp add: std_sort_contract_def insertion_sort_mset not_querySort)
qed

lemma sample_lib_contract: "std_sort_contract (std_sort sample_lib) querySort"
  by (simp add: sample_lib_def insertion_sort_contract)

subsection \<open>The sample queries\<close>

lemma sample_query_0:
  "query_impl sample_lib points_tile 0 0 0 [] =
     Inr [query_result_of sample_lib 0 0 (''places'', feature_a),
          query_result_of sample_lib 0 0 (''places'', feature_b)]"
  by (simp add: query_impl_def is_empty_def points_tile_def VectorTile_def sample_lib_def
        feature_a_def feature_b_def feature_c_def path_to_point_distance_def p2p_point_def
        p2p_result_init_def sample_distance_def query_result_of_def insertion_sort_def
        querySort_def)

lemma sample_query_1:
  "query_impl sample_lib points_tile 0 0 1 [] =
     Inr [query_result_of sample_lib 0 0 (''places'', feature_a),
          query_result_of sample_lib 0 0 (''places'', feature_b),
          query_result_of sample_lib 0 0 (''places'', feature_c)]"
  by (simp add: query_impl_def is_empty_def points_tile_def VectorTile_def sample_lib_def
        feature_a_def feature_b_def feature_c_def path_to_point_distance_def p2p_point_def
        p2p_result_init_def sample_distance_def query_result_of_def insertion_sort_def
        querySort_def)

lemma sample_forward: "forward sample_lib pt = Some pt" "forward gnu_lib pt = Some pt"
  by (simp_all add: sample_lib_def gnu_lib_def)

lemma scanned_features_mono:
  assumes "features_at_point_monotone lib" and "0 \<le> t1" and "t1 \<le> t2"
  shows "set (scanned_features lib d pt t1 n) \<subseteq> set (scanned_features lib d pt t2 n)"
proof -
  have m: "set (features_at_point lib l pt t1) \<subseteq> set (features_at_point lib l pt t2)" for l
    using assms unfolding features_at_point_monotone_def by blast
  show ?thesis
    using m by (auto simp: scanned_features_def split: option.splits)
qed

lemma sample_lib_monotone: "features_at_point_monotone sample_lib"
  by (simp add: features_at_point_monotone_def sample_lib_def)

subsection \<open>C1: the hits of a query and their order\<close>

text \<open>
  Claim C1, as the code has it. Whenever the query point reprojects and the query
  returns, the list returned holds exactly the hits of the scan, each once per scanned
  feature: the features of the scanned feature sets whose computed distance \<open>d\<close> satisfies
  \<open>0 \<le> d \<le> tolerance\<close>; and it is ascending by distance. This holds for every
  \<^verbatim>\<open>std::sort\<close> that meets the standard's contract. The order of hits at the same
  distance is whatever that sort leaves: the claim's stability on ties does not hold.
\<close>

theorem query_sorted_by_distance:
  assumes "std_sort_contract (std_sort lib) querySort"
      and "forward lib (lon, lat) = Some (x, y)"
      and "query_impl lib d lon lat tolerance layer_name = Inr res"
  shows "mset res = mset (map (query_result_of lib x y)
                            (filter (within_tolerance lib x y tolerance)
                               (scanned_features lib d (x, y) tolerance layer_name)))
         \<and> sorted_wrt (\<lambda>a b. distance a \<le> distance b) res"
  using query_impl_mset [OF assms] query_impl_sorted [OF assms(1,3)] by simp

text \<open>The sample tile, tolerance 1: three hits, the two at distance 0 first.\<close>

theorem query_sorted_by_distance_witness:
  "std_sort_contract (std_sort sample_lib) querySort
   \<and> forward sample_lib (0, 0) = Some (0, 0)
   \<and> query_impl sample_lib points_tile 0 0 1 [] =
       Inr [query_result_of sample_lib 0 0 (''places'', feature_a),
            query_result_of sample_lib 0 0 (''places'', feature_b),
            query_result_of sample_lib 0 0 (''places'', feature_c)]
   \<and> mset [query_result_of sample_lib 0 0 (''places'', feature_a),
            query_result_of sample_lib 0 0 (''places'', feature_b),
            query_result_of sample_lib 0 0 (''places'', feature_c)] =
       mset (map (query_result_of sample_lib 0 0)
              (filter (within_tolerance sample_lib 0 0 1)
                 (scanned_features sample_lib points_tile (0, 0) 1 [])))
   \<and> sorted_wrt (\<lambda>a b. distance a \<le> distance b)
        [query_result_of sample_lib 0 0 (''places'', feature_a),
         query_result_of sample_lib 0 0 (''places'', feature_b),
         query_result_of sample_lib 0 0 (''places'', feature_c)]"
  using query_sorted_by_distance [OF sample_lib_contract sample_forward(1) sample_query_1]
        sample_lib_contract sample_forward(1) sample_query_1
  by simp

text \<open>The twenty tied hits, as the sort of libstdc++ leaves them and as a stable sort would.\<close>

lemma list_update_Cons_numeral:
  "(x # xs)[numeral n := y] = x # xs[pred_numeral n := y]"
  by (simp add: numeral_eq_Suc)

lemma partition_down_numeral:
  "partition_down cmp xs (numeral n) pivot =
     (if cmp (xs ! pivot) (xs ! numeral n) then partition_down cmp xs (pred_numeral n) pivot
      else Some (numeral n))"
  by (simp add: numeral_eq_Suc)

lemma unguarded_linear_insert_tied:
  assumes "\<not> cmp (xs ! i) (xs ! (i - 1))" and "0 < i"
  shows "unguarded_linear_insert cmp xs i = Some xs"
proof -
  from assms(2) obtain j where j: "i = Suc j" by (cases i) auto
  with assms(1) show ?thesis by (simp add: unguarded_linear_insert_def)
qed

lemma guarded_insertions_tied:
  assumes "\<forall>a\<in>set xs. \<forall>b\<in>set xs. \<not> cmp a b" and "first < length xs"
      and "\<forall>i\<in>set is. 0 < i \<and> i < length xs"
  shows "fold (\<lambda>i r. case r of
                         None \<Rightarrow> None
                       | Some ys \<Rightarrow>
                           if cmp (ys ! i) (ys ! first) then Some (move_backward_insert ys first i)
                           else unguarded_linear_insert cmp ys i) is (Some xs) = Some xs"
  using assms(3)
proof (induction "is")
  case Nil
  show ?case by simp
next
  case (Cons i "is")
  from Cons.prems have i: "0 < i" "i < length xs" "i - 1 < length xs" by auto
  with assms(1) have n: "\<not> cmp (xs ! i) (xs ! (i - 1))" by (meson nth_mem)
  from assms(1,2) i have m: "\<not> cmp (xs ! i) (xs ! first)" by (meson nth_mem)
  have "unguarded_linear_insert cmp xs i = Some xs"
    using n i(1) by (rule unguarded_linear_insert_tied)
  with m Cons.IH Cons.prems show ?case by simp
qed

lemma unguarded_insertions_tied:
  assumes "\<forall>a\<in>set xs. \<forall>b\<in>set xs. \<not> cmp a b"
      and "\<forall>i\<in>set is. 0 < i \<and> i < length xs"
  shows "fold (\<lambda>i r. case r of None \<Rightarrow> None | Some ys \<Rightarrow> unguarded_linear_insert cmp ys i)
           is (Some xs) = Some xs"
  using assms(2)
proof (induction "is")
  case Nil
  show ?case by simp
next
  case (Cons i "is")
  from Cons.prems have i: "0 < i" "i < length xs" "i - 1 < length xs" by auto
  with assms(1) have n: "\<not> cmp (xs ! i) (xs ! (i - 1))" by (meson nth_mem)
  have "unguarded_linear_insert cmp xs i = Some xs"
    using n i(1) by (rule unguarded_linear_insert_tied)
  with Cons.IH Cons.prems show ?case by simp
qed

lemma final_insertion_sort_tied:
  assumes "\<forall>a\<in>set xs. \<forall>b\<in>set xs. \<not> cmp a b"
  shows "final_insertion_sort cmp xs 0 (length xs) = Some xs"
proof (cases "length xs > 16")
  case True
  then have "xs \<noteq> []" by auto
  then have "gnu_insertion_sort cmp xs 0 16 = Some xs"
    unfolding gnu_insertion_sort_def
    using guarded_insertions_tied [OF assms, of 0 "[0 + 1 ..< 16]"] True by simp
  moreover have "unguarded_insertion_sort cmp xs 16 (length xs) = Some xs"
    unfolding unguarded_insertion_sort_def
    using unguarded_insertions_tied [OF assms, of "[16 ..< length xs]"] by simp
  ultimately show ?thesis using True by (simp add: final_insertion_sort_def)
next
  case False
  show ?thesis
  proof (cases "xs = []")
    case True
    then show ?thesis by (simp add: final_insertion_sort_def gnu_insertion_sort_def)
  next
    case ne: False
    have "gnu_insertion_sort cmp xs 0 (length xs) = Some xs"
      unfolding gnu_insertion_sort_def
      using guarded_insertions_tied [OF assms, of 0 "[0 + 1 ..< length xs]"] ne by simp
    with False show ?thesis by (simp add: final_insertion_sort_def)
  qed
qed

lemma gnu_sort_tied:
  assumes "\<And>i. key (h i) = (k::'k::order)"
  shows "gnu_sort (\<lambda>a b. key a < key b)
     (map h [0, 1, 2, 3, 4, 5, 6, 7, 8, 9, 10, 11, 12, 13, 14, 15, 16, 17, 18, 19::nat]) =
   map h [10, 19, 18, 17, 16, 15, 14, 13, 12, 11, 0, 9, 8, 7, 6, 5, 4, 3, 2, 1]"
proof -
  let ?xs = "map h [0, 1, 2, 3, 4, 5, 6, 7, 8, 9, 10, 11, 12, 13, 14, 15, 16, 17, 18, 19::nat]"
  let ?zs = "map h [10, 1, 2, 3, 4, 5, 6, 7, 8, 9, 0, 11, 12, 13, 14, 15, 16, 17, 18, 19::nat]"
  let ?ys = "map h [10, 19, 18, 17, 16, 15, 14, 13, 12, 11, 0, 9, 8, 7, 6, 5, 4, 3, 2, 1::nat]"
  let ?cmp = "\<lambda>a b. key a < key b"
  have lg: "lg 20 = 4"
    by (simp add: lg.simps)
  have m: "move_median_to_first ?cmp ?xs 0 1 10 19 = ?zs"
    by (simp add: move_median_to_first_def iter_swap_def assms)
  have p: "unguarded_partition ?cmp ?zs 1 20 0 = Some (10, ?ys)"
    by (simp add: unguarded_partition.simps partition_up.simps partition_down_numeral
          iter_swap_def assms list_update_Cons_numeral)
  have pp: "unguarded_partition_pivot ?cmp ?xs 0 20 = Some (10, ?ys)"
    using m p by (simp add: unguarded_partition_pivot_def)
  have i1: "introsort_loop ?cmp ?ys 10 20 7 = Some ?ys"
    by (subst introsort_loop.simps) simp
  have i2: "introsort_loop ?cmp ?ys 0 10 7 = Some ?ys"
    by (subst introsort_loop.simps) simp
  have i: "introsort_loop ?cmp ?xs 0 20 8 = Some ?ys"
    using pp i1 i2 by (subst introsort_loop.simps) simp
  have l: "length ?xs = 20" "length ?ys = 20" by simp_all
  have t: "\<forall>a\<in>set ?ys. \<forall>b\<in>set ?ys. \<not> key a < key b" by (simp add: assms)
  note f = final_insertion_sort_tied [of ?ys ?cmp, OF t, unfolded l]
  have ne: "?xs \<noteq> []" by simp
  have d: "lg 20 * 2 = 8" using lg by simp
  show ?thesis
    by (simp only: gnu_sort_def ne if_False l d i f option.case)
qed


lemma tied_hit_distance: "distance (tied_hit i) = 0"
  by (simp add: tied_hit_def query_result_of_def Let_def tied_feature_def
        path_to_point_distance_def p2p_point_def p2p_result_init_def gnu_lib_def sample_lib_def
        sample_distance_def)

lemma tied_hit_feature: "feature_id (feature (tied_hit i)) = i"
  by (simp add: tied_hit_def query_result_of_def Let_def tied_feature_def)

lemma tied_within: "within_tolerance gnu_lib 0 0 0 (''places'', tied_feature i)"
  using tied_hit_distance [of i]
  by (simp add: within_tolerance_def feature_distance_def tied_hit_def query_result_of_def Let_def)

lemma tied_scanned:
  "scanned_features gnu_lib tied_tile (0, 0) 0 [] =
   map (\<lambda>i. (''places'', tied_feature i))
     [0, 1, 2, 3, 4, 5, 6, 7, 8, 9, 10, 11, 12, 13, 14, 15, 16, 17, 18, 19]"
  by (simp add: scanned_features_def is_empty_def tied_tile_def gnu_lib_def sample_lib_def)

lemma tied_scan:
  "map (query_result_of gnu_lib 0 0)
     (filter (within_tolerance gnu_lib 0 0 0) (scanned_features gnu_lib tied_tile (0, 0) 0 [])) =
   map tied_hit [0, 1, 2, 3, 4, 5, 6, 7, 8, 9, 10, 11, 12, 13, 14, 15, 16, 17, 18, 19]"
  by (simp only: tied_scanned filter_map) (simp add: comp_def tied_within tied_hit_def)

lemma querySort_key: "querySort = (\<lambda>a b. distance a < distance b)"
  by (rule ext)+ (simp add: querySort_def)

lemma tied_query:
  "query_impl gnu_lib tied_tile 0 0 0 [] =
     Inr (map tied_hit [10, 19, 18, 17, 16, 15, 14, 13, 12, 11, 0, 9, 8, 7, 6, 5, 4, 3, 2, 1])"
proof -
  have "\<forall>p. backward gnu_lib p \<noteq> None" "forward gnu_lib (0, 0) \<noteq> None"
    by (simp_all add: gnu_lib_def sample_lib_def)
  from query_impl_returns [OF this] obtain res where
    r: "query_impl gnu_lib tied_tile 0 0 0 [] = Inr res" by blast
  have e: "\<not> is_empty tied_tile"
    by (simp add: is_empty_def tied_tile_def)
  have s: "std_sort gnu_lib = gnu_sort" by (simp add: gnu_lib_def)
  from query_impl_scan [OF sample_forward(2) r] e
  have "res = gnu_sort querySort
                (map tied_hit [0, 1, 2, 3, 4, 5, 6, 7, 8, 9, 10, 11, 12, 13, 14, 15, 16, 17, 18, 19])"
    by (simp only: tied_scan s simp_thms)
  also have "\<dots> = map tied_hit [10, 19, 18, 17, 16, 15, 14, 13, 12, 11, 0, 9, 8, 7, 6, 5, 4, 3, 2, 1]"
    unfolding querySort_key by (rule gnu_sort_tied) (rule tied_hit_distance)
  finally show ?thesis using r by simp
qed

lemma sort_key_tied: "\<forall>x\<in>set xs. f x = k \<Longrightarrow> sort_key f xs = xs"
  by (induction xs) (auto simp: insort_is_Cons)

lemma tied_stable_hits:
  "map (query_result_of gnu_lib 0 0) (stable_hits gnu_lib tied_tile 0 0 0 []) =
   map tied_hit [0, 1, 2, 3, 4, 5, 6, 7, 8, 9, 10, 11, 12, 13, 14, 15, 16, 17, 18, 19]"
proof -
  have "\<forall>lf\<in>set (filter (within_tolerance gnu_lib 0 0 0)
                     (scanned_features gnu_lib tied_tile (0, 0) 0 [])).
          feature_distance gnu_lib 0 0 (snd lf) = 0"
    by (auto simp: within_tolerance_def)
  from sort_key_tied [OF this] show ?thesis
    by (simp only: stable_hits_def tied_scan)
qed

text \<open>
  The claim as stated would make every query return the hits in the stable order
  (\<open>query_sorted_stable\<close>): ascending by distance, ties in the order of the scan. A
  layer of twenty features at the query point gives twenty hits at distance 0, more than
  the 16 elements below which the sort of libstdc++ only inserts: its partition step
  moves the median to the front and swaps the tied elements from both ends, and the
  query returns feature 10 first and feature 0 in the eleventh place.
\<close>

theorem query_ties_not_stable:
  "query_impl gnu_lib tied_tile 0 0 0 [] =
     Inr (map tied_hit [10, 19, 18, 17, 16, 15, 14, 13, 12, 11, 0, 9, 8, 7, 6, 5, 4, 3, 2, 1])
   \<and> \<not> query_sorted_stable gnu_lib tied_tile 0 0 0 []"
proof
  show q: "query_impl gnu_lib tied_tile 0 0 0 [] =
     Inr (map tied_hit [10, 19, 18, 17, 16, 15, 14, 13, 12, 11, 0, 9, 8, 7, 6, 5, 4, 3, 2, 1])"
    by (rule tied_query)
  have "feature_id (feature (tied_hit 10)) \<noteq> feature_id (feature (tied_hit 0))"
    by (simp add: tied_hit_feature)
  then have "tied_hit 10 \<noteq> tied_hit 0" by auto
  then have "map tied_hit [10, 19, 18, 17, 16, 15, 14, 13, 12, 11, 0, 9, 8, 7, 6, 5, 4, 3, 2, 1] \<noteq>
             map (query_result_of gnu_lib 0 0) (stable_hits gnu_lib tied_tile 0 0 0 [])"
    by (simp add: tied_stable_hits)
  with sample_forward(2) [of "(0, 0)"] q
  show "\<not> query_sorted_stable gnu_lib tied_tile 0 0 0 []"
    unfolding query_sorted_stable_def by blast
qed

subsection \<open>C2: polygons hit by containment only\<close>

lemma fold_toggle:
  "fold (\<lambda>s b. if P s then \<not> b else b) segs b = (b \<noteq> odd (length (filter P segs)))"
  by (induction segs arbitrary: b) auto

lemma pip_ring_parity: "pip_ring lib x y ring inside = (inside \<noteq> ring_contains lib x y ring)"
  unfolding pip_ring_def ring_contains_def crossings_def by (rule fold_toggle)

lemma interior_rings_parity:
  "fold (\<lambda>ring inside. if length ring < 4 then inside else pip_ring lib x y ring inside) rings b =
   (b \<noteq> odd (length (filter (ring_contains lib x y) (filter (\<lambda>ring. length ring \<ge> 4) rings))))"
  by (induction rings arbitrary: b) (auto simp: pip_ring_parity)

lemma p2p_polygon_contains:
  "p2p_polygon lib x y poly =
     (if polygon_contains lib x y poly then p2p_result_init\<lparr>distance := 0\<rparr> else p2p_result_init)"
  by (auto simp: p2p_polygon_def polygon_contains_def Let_def pip_ring_parity interior_rings_parity)

lemma p2p_closer_miss: "p2p_closer p2p p2p_result_init = p2p"
  by (simp add: p2p_closer_def p2p_result_init_def)

lemma p2p_closer_inside:
  "p2p_closer p2p_result_init (p2p_result_init\<lparr>distance := 0\<rparr>) = p2p_result_init\<lparr>distance := 0\<rparr>"
  "p2p_closer (p2p_result_init\<lparr>distance := 0\<rparr>) (p2p_result_init\<lparr>distance := 0\<rparr>) =
     p2p_result_init\<lparr>distance := 0\<rparr>"
  by (simp_all add: p2p_closer_def p2p_result_init_def)

lemma fold_polygons_inside:
  "fold (\<lambda>poly p2p. p2p_closer p2p (p2p_polygon lib x y poly)) polys (p2p_result_init\<lparr>distance := 0\<rparr>) =
     p2p_result_init\<lparr>distance := 0\<rparr>"
proof (induction polys)
  case Nil
  show ?case by simp
next
  case (Cons a polys)
  have "p2p_closer (p2p_result_init\<lparr>distance := 0\<rparr>) (p2p_polygon lib x y a) =
          p2p_result_init\<lparr>distance := 0\<rparr>"
    by (simp add: p2p_polygon_contains p2p_closer_miss p2p_closer_inside)
  with Cons.IH show ?case by simp
qed

lemma fold_polygons:
  "fold (\<lambda>poly p2p. p2p_closer p2p (p2p_polygon lib x y poly)) polys p2p_result_init =
     (if list_ex (polygon_contains lib x y) polys then p2p_result_init\<lparr>distance := 0\<rparr>
      else p2p_result_init)"
proof (induction polys)
  case Nil
  show ?case by simp
next
  case (Cons a polys)
  have "p2p_closer p2p_result_init (p2p_polygon lib x y a) =
          (if polygon_contains lib x y a then p2p_result_init\<lparr>distance := 0\<rparr>
           else p2p_result_init)"
    by (simp add: p2p_polygon_contains p2p_closer_miss p2p_closer_inside)
  with Cons.IH show ?case by (simp add: fold_polygons_inside)
qed

lemma no_hit:
  assumes "p2p_distance lib x y (get_geometry f) = p2p_result_init"
      and "query_featureset lib x y tolerance lname [f] arr = Inr res"
  shows "res = arr"
  using assms
  by (auto simp: Let_def path_to_point_distance_def p2p_result_init_def split: option.splits)

lemma square_facts:
  "polygon_contains sample_lib (3 / 2) 0 square"
  "\<not> polygon_contains sample_lib 0 0 square"
  "polygon_contains sample_lib 0 0 (square\<lparr>interior_rings := []\<rparr>)"
  by (simp_all add: polygon_contains_def ring_contains_def crossings_def segments_def square_def
        sample_lib_def sample_pip_def)

lemma park_query: "query_featureset sample_lib 0 0 1 ''parks'' [park] [] = Inr []"
  using square_facts(2)
  by (simp add: park_def path_to_point_distance_def p2p_polygon_contains p2p_result_init_def
        sample_lib_def)

text \<open>
  Claim C2. For a polygon the visitor computes even-odd containment: the crossings of
  the exterior ring are counted (a point outside the exterior ring is not contained),
  and every interior ring with at least 4 points that contains the point toggles the
  answer. If the point is contained the result has distance exactly 0; otherwise it is
  the initial result, with distance -1, and so is the result for an exterior ring with
  fewer than 4 points. A multi-polygon has distance 0 when one of its polygons contains
  the point and the initial result otherwise. A feature with the initial result adds
  nothing to the list of hits, whatever the tolerance: no distance to a polygon that
  does not contain the point is ever computed.
\<close>

theorem polygon_hit_is_containment:
  "p2p_distance lib x y (Polygon poly) =
     (if polygon_contains lib x y poly then p2p_result_init\<lparr>distance := 0\<rparr> else p2p_result_init)
   \<and> p2p_distance lib x y (Multi_polygon polys) =
     (if list_ex (polygon_contains lib x y) polys then p2p_result_init\<lparr>distance := 0\<rparr>
      else p2p_result_init)
   \<and> (length (exterior_ring poly) < 4 \<longrightarrow> p2p_distance lib x y (Polygon poly) = p2p_result_init)
   \<and> (p2p_distance lib x y (get_geometry f) = p2p_result_init \<longrightarrow>
        query_featureset lib x y tolerance lname [f] arr = Inr res \<longrightarrow> res = arr)"
proof (intro conjI impI)
  show "p2p_distance lib x y (Polygon poly) =
     (if polygon_contains lib x y poly then p2p_result_init\<lparr>distance := 0\<rparr> else p2p_result_init)"
    by (simp add: p2p_polygon_contains)
  show "p2p_distance lib x y (Multi_polygon polys) =
     (if list_ex (polygon_contains lib x y) polys then p2p_result_init\<lparr>distance := 0\<rparr>
      else p2p_result_init)"
    by (simp only: p2p_distance.simps p2p_multi_polygon_def fold_polygons)
  show "p2p_distance lib x y (Polygon poly) = p2p_result_init"
    if "length (exterior_ring poly) < 4"
    using that by (simp add: p2p_polygon_def)
  show "res = arr"
    if "p2p_distance lib x y (get_geometry f) = p2p_result_init"
      and "query_featureset lib x y tolerance lname [f] arr = Inr res"
    using that by (rule no_hit)
qed

text \<open>
  The square with a hole: a point between hole and border, the origin (in the hole), a
  multi-polygon with the square without its hole, a ring of three points, and the scan
  of a feature that is the square.
\<close>

theorem polygon_hit_is_containment_witness:
  "p2p_distance sample_lib (3 / 2) 0 (Polygon square) = p2p_result_init\<lparr>distance := 0\<rparr>
   \<and> p2p_distance sample_lib 0 0 (Polygon square) = p2p_result_init
   \<and> p2p_distance sample_lib 0 0 (Multi_polygon [square, square\<lparr>interior_rings := []\<rparr>]) =
       p2p_result_init\<lparr>distance := 0\<rparr>
   \<and> length (exterior_ring triangle) < 4
   \<and> p2p_distance sample_lib 0 0 (Polygon triangle) = p2p_result_init
   \<and> p2p_distance sample_lib 0 0 (get_geometry park) = p2p_result_init
   \<and> query_featureset sample_lib 0 0 1 ''parks'' [park] [] = Inr []"
proof -
  note inside = polygon_hit_is_containment
    [of sample_lib "3 / 2" 0 square "[]" park 1 "''parks''" "[]" "[]"]
  note hole = polygon_hit_is_containment
    [of sample_lib 0 0 square "[square, square\<lparr>interior_rings := []\<rparr>]" park 1 "''parks''" "[]" "[]"]
  note short = polygon_hit_is_containment
    [of sample_lib 0 0 triangle "[]" park 1 "''parks''" "[]" "[]"]
  have 1: "p2p_distance sample_lib (3 / 2) 0 (Polygon square) = p2p_result_init\<lparr>distance := 0\<rparr>"
    using inside [THEN conjunct1] square_facts(1) by simp
  have 2: "p2p_distance sample_lib 0 0 (Polygon square) = p2p_result_init"
    using hole [THEN conjunct1] square_facts(2) by simp
  have 3: "p2p_distance sample_lib 0 0 (Multi_polygon [square, square\<lparr>interior_rings := []\<rparr>]) =
             p2p_result_init\<lparr>distance := 0\<rparr>"
    using hole [THEN conjunct2, THEN conjunct1] square_facts(3) by simp
  have 4: "length (exterior_ring triangle) < 4" by (simp add: triangle_def)
  have 5: "p2p_distance sample_lib 0 0 (Polygon triangle) = p2p_result_init"
    using short [THEN conjunct2, THEN conjunct2, THEN conjunct1] 4 by blast
  have 6: "p2p_distance sample_lib 0 0 (get_geometry park) = p2p_result_init"
    using 2 by (simp add: park_def)
  from 1 2 3 4 5 6 park_query show ?thesis by blast
qed

subsection \<open>C3: a wider tolerance keeps every hit\<close>

text \<open>
  Claim C3. For tolerances \<open>t1 \<le> t2\<close>, every hit that the query returns at \<open>t1\<close> is
  among the hits it returns at \<open>t2\<close>, for the same tile, point and layer name. The feature
  sets come from the tile library; what is used of them is that a wider tolerance (from
  0 on) never drops a feature, and of \<^verbatim>\<open>std::sort\<close> that it permutes.
\<close>

theorem query_tolerance_monotone:
  assumes "std_sort_contract (std_sort lib) querySort"
      and "features_at_point_monotone lib"
      and "t1 \<le> t2"
      and "query_impl lib d lon lat t1 layer_name = Inr r1"
      and "query_impl lib d lon lat t2 layer_name = Inr r2"
  shows "set r1 \<subseteq> set r2"
proof (cases "is_empty d")
  case True
  with assms(4) show ?thesis by (simp add: query_impl_def)
next
  case False
  with assms(4) obtain pt where "forward lib (lon, lat) = Some pt"
    by (auto simp: query_impl_def split: option.splits)
  then have f: "forward lib (lon, lat) = Some (fst pt, snd pt)" by simp
  let ?x = "fst pt" and ?y = "snd pt"
  have s: "set r = set (map (query_result_of lib ?x ?y)
                     (filter (within_tolerance lib ?x ?y t)
                        (scanned_features lib d (?x, ?y) t layer_name)))"
    if "query_impl lib d lon lat t layer_name = Inr r" for r t
    using query_impl_mset [OF assms(1) f that] by (metis set_mset_mset)
  show ?thesis
  proof
    fix r assume "r \<in> set r1"
    with s [OF assms(4)] obtain lf where
      lf: "lf \<in> set (scanned_features lib d (?x, ?y) t1 layer_name)"
      and w: "within_tolerance lib ?x ?y t1 lf" and r: "r = query_result_of lib ?x ?y lf"
      by auto
    from w have "0 \<le> t1" by (simp add: within_tolerance_def)
    from scanned_features_mono [OF assms(2) this assms(3)] lf
    have "lf \<in> set (scanned_features lib d (?x, ?y) t2 layer_name)" by blast
    moreover from w assms(3) have "within_tolerance lib ?x ?y t2 lf"
      by (simp add: within_tolerance_def)
    ultimately show "r \<in> set r2" using s [OF assms(5)] r by auto
  qed
qed

text \<open>The sample tile at tolerances 0 and 1.\<close>

theorem query_tolerance_monotone_witness:
  "std_sort_contract (std_sort sample_lib) querySort
   \<and> features_at_point_monotone sample_lib
   \<and> (0::real) \<le> 1
   \<and> query_impl sample_lib points_tile 0 0 0 [] =
       Inr [query_result_of sample_lib 0 0 (''places'', feature_a),
            query_result_of sample_lib 0 0 (''places'', feature_b)]
   \<and> query_impl sample_lib points_tile 0 0 1 [] =
       Inr [query_result_of sample_lib 0 0 (''places'', feature_a),
            query_result_of sample_lib 0 0 (''places'', feature_b),
            query_result_of sample_lib 0 0 (''places'', feature_c)]
   \<and> set [query_result_of sample_lib 0 0 (''places'', feature_a),
           query_result_of sample_lib 0 0 (''places'', feature_b)]
       \<subseteq> set [query_result_of sample_lib 0 0 (''places'', feature_a),
                query_result_of sample_lib 0 0 (''places'', feature_b),
                query_result_of sample_lib 0 0 (''places'', feature_c)]"
proof -
  have le: "(0::real) \<le> 1" by simp
  from query_tolerance_monotone [OF sample_lib_contract sample_lib_monotone le
         sample_query_0 sample_query_1]
       sample_lib_contract sample_lib_monotone le sample_query_0 sample_query_1
  show ?thesis by blast
qed

subsection \<open>C4: a layer name that is not in the tile\<close>

text \<open>
  Claim C4. A query with a layer name (a non-empty string: the empty string is how the
  code writes "no layer name") that no layer of the tile has returns the empty list and
  throws nothing, whenever the query point reprojects (the source notes that this
  projection never fails).
\<close>

theorem query_unknown_layer_empty:
  assumes "std_sort_contract (std_sort lib) querySort"
      and "layer_name \<noteq> []"
      and "layer_name \<notin> get_name ` set (vt_layers d)"
      and "forward lib (lon, lat) = Some pt"
  shows "query_impl lib d lon lat tolerance layer_name = Inr []"
proof -
  from assms(3) have "layer_reader d layer_name = None"
    by (auto simp: layer_reader_def find_None_iff)
  moreover from assms(1) have "std_sort lib querySort [] = []"
    by (metis std_sort_contract_def mset_zero_iff)
  ultimately show ?thesis using assms(2,4) by (simp add: query_impl_def)
qed

text \<open>The sample tile has no layer called roads.\<close>

theorem query_unknown_layer_empty_witness:
  "std_sort_contract (std_sort sample_lib) querySort
   \<and> ''roads'' \<noteq> []
   \<and> ''roads'' \<notin> get_name ` set (vt_layers points_tile)
   \<and> forward sample_lib (0, 0) = Some (0, 0)
   \<and> query_impl sample_lib points_tile 0 0 1 ''roads'' = Inr []"
proof -
  have n: "''roads'' \<noteq> []" by simp
  have p: "''roads'' \<notin> get_name ` set (vt_layers points_tile)"
    by (simp add: points_tile_def)
  from query_unknown_layer_empty [OF sample_lib_contract n p sample_forward(1)]
       sample_lib_contract n p sample_forward(1)
  show ?thesis by blast
qed

subsection \<open>C5: queryMany needs a layer that is in the tile\<close>

lemma queryMany_no_layer:
  assumes "query_layer (arg info 1) = Inr []"
  shows "\<exists>e. queryMany lib info d = Threw e"
  using assms by (auto simp: queryMany_def Let_def split: sum.splits)

lemma layer_reader_None: "n \<notin> get_name ` set (vt_layers d) \<Longrightarrow> layer_reader d n = None"
  by (auto simp: layer_reader_def find_None_iff)

text \<open>
  Claim C5. A call of queryMany whose options give no layer name (or the empty one) is
  rejected with an exception; when the other arguments convert, the exception is the
  type error "options.layer is required". A call that names a layer the tile does not
  have makes \<^verbatim>\<open>_queryMany\<close> throw "Could not find layer in vector tile" before it looks at
  a point or a feature; the entry point rethrows it, or hands it to the callback when
  the last argument is one. No result, empty or not, is returned.
\<close>

theorem queryMany_requires_layer:
  "(query_layer (arg info 1) = Inr [] \<longrightarrow> (\<exists>e. queryMany lib info d = Threw e))
   \<and> (queryMany_arguments info = Some (query, tolerance, layer_name, field_names) \<longrightarrow>
        (layer_name = [] \<longrightarrow> queryMany lib info d = Threw (TypeError ''options.layer is required''))
      \<and> (layer_name \<noteq> [] \<and> layer_name \<notin> get_name ` set (vt_layers d) \<longrightarrow>
            queryMany_impl lib d query tolerance layer_name field_names =
              Inl (Runtime_error ''Could not find layer in vector tile'')
          \<and> queryMany lib info d =
              (if IsFunction (arg info (int (length info) - 1))
               then Called_back (Inl (Error ''Could not find layer in vector tile''))
               else Threw (Error ''Could not find layer in vector tile''))))"
proof (intro conjI impI)
  show "\<exists>e. queryMany lib info d = Threw e" if "query_layer (arg info 1) = Inr []"
    using that by (rule queryMany_no_layer)
next
  assume a: "queryMany_arguments info = Some (query, tolerance, layer_name, field_names)"
  then have p: "length info \<ge> 2" "IsArray (arg info 0)" "IsObject (arg info 1)"
    "queryMany_query (Array_elems (arg info 0)) = Inr query"
    "query_tolerance (arg info 1) = Inr tolerance"
    "query_layer (arg info 1) = Inr layer_name"
    "queryMany_fields (arg info 1) = Inr field_names"
    by (auto simp: queryMany_arguments_def split: if_splits sum.splits)
  show "queryMany lib info d = Threw (TypeError ''options.layer is required'')"
    if "layer_name = []"
    using p that by (simp add: queryMany_def)
  assume b: "layer_name \<noteq> [] \<and> layer_name \<notin> get_name ` set (vt_layers d)"
  then have r: "layer_reader d layer_name = None" by (simp add: layer_reader_None)
  then show i: "queryMany_impl lib d query tolerance layer_name field_names =
              Inl (Runtime_error ''Could not find layer in vector tile'')"
    by (simp add: queryMany_impl_def)
  show "queryMany lib info d =
              (if IsFunction (arg info (int (length info) - 1))
               then Called_back (Inl (Error ''Could not find layer in vector tile''))
               else Threw (Error ''Could not find layer in vector tile''))"
    using p b i by (simp add: queryMany_def)
qed

text \<open>A call without a layer, and calls for a layer roads that the sample tile lacks.\<close>

theorem queryMany_requires_layer_witness:
  "query_layer (arg no_layer_call 1) = Inr []
   \<and> queryMany sample_lib no_layer_call points_tile = Threw (TypeError ''options.layer is required'')
   \<and> queryMany_arguments no_layer_call = Some ([(0, 0)], 1, [], [])
   \<and> queryMany_arguments no_roads_call = Some ([(0, 0)], 0, ''roads'', [])
   \<and> ''roads'' \<noteq> [] \<and> ''roads'' \<notin> get_name ` set (vt_layers points_tile)
   \<and> queryMany_impl sample_lib points_tile [(0, 0)] 0 ''roads'' [] =
        Inl (Runtime_error ''Could not find layer in vector tile'')
   \<and> queryMany sample_lib no_roads_call points_tile =
        Threw (Error ''Could not find layer in vector tile'')
   \<and> queryMany sample_lib (no_roads_call @ [V8_Function]) points_tile =
        Called_back (Inl (Error ''Could not find layer in vector tile''))"
proof -
  have l: "query_layer (arg no_layer_call 1) = Inr []"
    by (simp add: no_layer_call_def arg_def query_layer_def)
  have a: "queryMany_arguments no_layer_call = Some ([(0, 0)], 1, [], [])"
    by (simp add: no_layer_call_def queryMany_arguments_def arg_def Array_Get_def
          query_tolerance_def query_layer_def queryMany_fields_def)
  have b: "queryMany_arguments no_roads_call = Some ([(0, 0)], 0, ''roads'', [])"
    by (simp add: no_roads_call_def queryMany_arguments_def arg_def Array_Get_def
          query_tolerance_def query_layer_def queryMany_fields_def)
  have c: "queryMany_arguments (no_roads_call @ [V8_Function]) = Some ([(0, 0)], 0, ''roads'', [])"
    by (simp add: no_roads_call_def queryMany_arguments_def arg_def Array_Get_def
          query_tolerance_def query_layer_def queryMany_fields_def)
  have n: "''roads'' \<noteq> [] \<and> ''roads'' \<notin> get_name ` set (vt_layers points_tile)"
    by (simp add: points_tile_def)
  have f: "IsFunction (arg (no_roads_call @ [V8_Function]) (int (length (no_roads_call @ [V8_Function])) - 1))"
          "\<not> IsFunction (arg no_roads_call (int (length no_roads_call) - 1))"
    by (simp_all add: no_roads_call_def arg_def)
  from queryMany_requires_layer [of no_layer_call sample_lib points_tile "[(0, 0)]" 1 "[]" "[]"]
       queryMany_requires_layer [of no_roads_call sample_lib points_tile "[(0, 0)]" 0 "''roads''" "[]"]
       queryMany_requires_layer [of "no_roads_call @ [V8_Function]" sample_lib points_tile
                                    "[(0, 0)]" 0 "''roads''" "[]"]
       l a b c n f
  show ?thesis by simp
qed

subsection \<open>C6: an empty buffer is rejected and the tile is left alone\<close>

text \<open>
  Claim C6. When the first argument is a buffer of length zero, \<^verbatim>\<open>_addDataSync\<close> and
  \<^verbatim>\<open>_setDataSync\<close> throw "cannot accept empty buffer as protobuf", and so do addData and
  setData called with the buffer alone; called with a callback as last argument they
  hand that error to the callback; the work functions \<^verbatim>\<open>EIO_AddData\<close> and \<^verbatim>\<open>EIO_SetData\<close>
  only set the error in their baton. In every case the tile is the one before the call.
\<close>

theorem empty_buffer_rejected:
  assumes "arg info 0 = V8_Buffer []"
  shows "addDataSync_impl lib info d = (Some (Error ''cannot accept empty buffer as protobuf''), d)
       \<and> setDataSync_impl lib info d = (Some (Error ''cannot accept empty buffer as protobuf''), d)
       \<and> (length info = 1 \<longrightarrow>
            addData lib info d = (Threw (Error ''cannot accept empty buffer as protobuf''), d)
          \<and> setData lib info d = (Threw (Error ''cannot accept empty buffer as protobuf''), d))
       \<and> (length info \<noteq> 1 \<and> IsFunction (arg info (int (length info) - 1)) \<longrightarrow>
            addData lib info d =
              (Called_back (Inl (Error ''cannot accept empty buffer as protobuf'')), d)
          \<and> setData lib info d =
              (Called_back (Inl (Error ''cannot accept empty buffer as protobuf'')), d))
       \<and> (baton_dataLength closure = 0 \<longrightarrow>
            EIO_AddData lib closure =
              closure\<lparr>baton_error := True,
                      baton_error_name := ''cannot accept empty buffer as protobuf''\<rparr>
          \<and> EIO_SetData lib closure =
              closure\<lparr>baton_error := True,
                      baton_error_name := ''cannot accept empty buffer as protobuf''\<rparr>)"
proof -
  from assms have n: "info \<noteq> []"
    by (auto simp: arg_def)
  have s: "addDataSync_impl lib info d = (Some (Error ''cannot accept empty buffer as protobuf''), d)"
       "setDataSync_impl lib info d = (Some (Error ''cannot accept empty buffer as protobuf''), d)"
    using assms n by (simp_all add: addDataSync_impl_def setDataSync_impl_def)
  have a: "addData lib info d = (Called_back (Inl (Error ''cannot accept empty buffer as protobuf'')), d)"
          "setData lib info d = (Called_back (Inl (Error ''cannot accept empty buffer as protobuf'')), d)"
    if "length info \<noteq> 1" "IsFunction (arg info (int (length info) - 1))"
    using assms n that
    by (simp_all add: addData_def setData_def EIO_AddData_def EIO_SetData_def
          EIO_AfterAddData_def EIO_AfterSetData_def)
  have e: "EIO_AddData lib closure =
              closure\<lparr>baton_error := True,
                      baton_error_name := ''cannot accept empty buffer as protobuf''\<rparr>"
          "EIO_SetData lib closure =
              closure\<lparr>baton_error := True,
                      baton_error_name := ''cannot accept empty buffer as protobuf''\<rparr>"
    if "baton_dataLength closure = 0"
    using that by (simp_all add: EIO_AddData_def EIO_SetData_def)
  from s a e show ?thesis by (simp add: addData_def setData_def)
qed

text \<open>The empty buffer, alone and followed by a callback, on the sample tile.\<close>

theorem empty_buffer_rejected_witness:
  "arg empty_call 0 = V8_Buffer []
   \<and> addDataSync_impl sample_lib empty_call points_tile =
       (Some (Error ''cannot accept empty buffer as protobuf''), points_tile)
   \<and> setData sample_lib empty_call points_tile =
       (Threw (Error ''cannot accept empty buffer as protobuf''), points_tile)
   \<and> arg (empty_call @ [V8_Function]) 0 = V8_Buffer []
   \<and> addData sample_lib (empty_call @ [V8_Function]) points_tile =
       (Called_back (Inl (Error ''cannot accept empty buffer as protobuf'')), points_tile)
   \<and> setData sample_lib (empty_call @ [V8_Function]) points_tile =
       (Called_back (Inl (Error ''cannot accept empty buffer as protobuf'')), points_tile)"
proof -
  have a: "arg empty_call 0 = V8_Buffer []" "arg (empty_call @ [V8_Function]) 0 = V8_Buffer []"
    by (simp_all add: empty_call_def arg_def)
  have l: "length empty_call = 1" "length (empty_call @ [V8_Function]) \<noteq> 1"
    "IsFunction (arg (empty_call @ [V8_Function]) (int (length (empty_call @ [V8_Function])) - 1))"
    by (simp_all add: empty_call_def arg_def)
  from empty_buffer_rejected [OF a(1), of sample_lib points_tile]
       empty_buffer_rejected [OF a(2), of sample_lib points_tile] a l
  show ?thesis by simp
qed

subsection \<open>C7: the check of the registration in the constructor\<close>

text \<open>
  In the range where twice the buffer size fits 32 bits, the constructor's test is the
  spec's condition.
\<close>

lemma buffer_check_exact:
  assumes "- (2 ^ 30) \<le> sint buffer_size" and "sint buffer_size < 2 ^ 30"
  shows "buffer_too_negative tile_size buffer_size \<longleftrightarrow> \<not> registration_valid tile_size buffer_size"
proof -
  have "sint (2 * buffer_size) = 2 * sint buffer_size"
    using assms by (simp add: sint_word_ariths signed_take_bit_int_eq_self)
  then have "real (unat tile_size) + real_of_int (sint (2 * buffer_size)) =
               real_of_int (int (unat tile_size) + 2 * sint buffer_size)"
    by simp
  then have "buffer_too_negative tile_size buffer_size \<longleftrightarrow>
               int (unat tile_size) + 2 * sint buffer_size \<le> 0"
    unfolding buffer_too_negative_def by (simp only: of_int_le_0_iff)
  then show ?thesis
    unfolding registration_valid_def by linarith
qed

lemma New_rejects_negative_sum:
  "New True [V8_Number 0, V8_Number 0, V8_Number 0,
             V8_Object [(''buffer_size'', V8_Number (- 2048))]]
     = Inl (Error ''too large of a negative buffer for tilesize'')"
  by (simp add: registration_valid_def New_def arg_def New_tile_size_def New_buffer_size_def
        to_int32_def buffer_too_negative_def)

text \<open>
  Claim C7 says that every registration with tile_size + 2*buffer_size <= 0 is rejected.
  The constructor called with buffer_size -1073741825 and the default tile size 4096:
  the sum is -2147479554, yet the product wraps around to 2147483646 in 32 bits, the
  test does not fire and the tile is constructed.
\<close>

theorem New_accepts_overflowing_buffer:
  "\<not> registration_valid 4096 (- 1073741825) \<and>
   New True [V8_Number 0, V8_Number 0, V8_Number 0,
             V8_Object [(''buffer_size'', V8_Number (- 1073741825))]]
     = Inr (VectorTile 0 0 0 4096 (- 1073741825))"
  by (simp add: registration_valid_def New_def arg_def New_tile_size_def New_buffer_size_def
        to_int32_def buffer_too_negative_def)

text \<open>The tile that comes back: the default tile size and the buffer size as given.\<close>

theorem New_accepts_overflowing_buffer_witness:
  "(case New True [V8_Number 0, V8_Number 0, V8_Number 0,
                   V8_Object [(''buffer_size'', V8_Number (- 1073741825))]] of
      Inl e \<Rightarrow> False
    | Inr t \<Rightarrow> unat (vt_tile_size t) = 4096 \<and> sint (vt_buffer_size t) = - 1073741825)"
  using New_accepts_overflowing_buffer by (simp add: VectorTile_def)

subsection \<open>C8: setData is a merge into a fresh tile\<close>

text \<open>
  Claim C8. For every tile and every non-empty buffer, clear followed by the merge of
  the buffer, which is what \<^verbatim>\<open>_setDataSync\<close> does, gives what the merge gives on a tile
  fresh from the constructor with the same registration: the cleared tile is that
  fresh tile. The same holds for setData and addData, with or without a callback.
\<close>

theorem setData_is_merge_into_fresh:
  assumes "arg info 0 = V8_Buffer buf" and "buf \<noteq> []"
      and "length info = 1 \<or> IsFunction (arg info (int (length info) - 1))"
  shows "clear d = VectorTile (vt_z d) (vt_x d) (vt_y d) (vt_tile_size d) (vt_buffer_size d)
       \<and> setDataSync_impl lib info d =
           (case merge_from_compressed_buffer lib (clear d) buf of
              (d', None) \<Rightarrow> (None, d')
            | (d', Some what) \<Rightarrow> (Some (Error what), d'))
       \<and> setDataSync_impl lib info d =
           addDataSync_impl lib info
             (VectorTile (vt_z d) (vt_x d) (vt_y d) (vt_tile_size d) (vt_buffer_size d))
       \<and> setData lib info d =
           addData lib info
             (VectorTile (vt_z d) (vt_x d) (vt_y d) (vt_tile_size d) (vt_buffer_size d))"
proof -
  from assms(1) have n: "info \<noteq> []"
    by (auto simp: arg_def)
  have c: "clear d = VectorTile (vt_z d) (vt_x d) (vt_y d) (vt_tile_size d) (vt_buffer_size d)"
    by (simp add: clear_def VectorTile_def)
  have s: "setDataSync_impl lib info d =
           (case merge_from_compressed_buffer lib (clear d) buf of
              (d', None) \<Rightarrow> (None, d')
            | (d', Some what) \<Rightarrow> (Some (Error what), d'))"
    using assms(1,2) n by (simp add: setDataSync_impl_def)
  have a: "addDataSync_impl lib info (clear d) =
           (case merge_from_compressed_buffer lib (clear d) buf of
              (d', None) \<Rightarrow> (None, d')
            | (d', Some what) \<Rightarrow> (Some (Error what), d'))"
    using assms(1,2) n by (simp add: addDataSync_impl_def)
  have e: "EIO_SetData lib \<lparr>baton_d = d, baton_data = buf, baton_dataLength = length buf,
                            baton_error = False, baton_error_name = []\<rparr> =
           EIO_AddData lib \<lparr>baton_d = clear d, baton_data = buf, baton_dataLength = length buf,
                            baton_error = False, baton_error_name = []\<rparr>"
    using assms(2) by (simp add: EIO_SetData_def EIO_AddData_def split: prod.splits option.splits)
  have "setData lib info d = addData lib info (clear d)"
    using assms n s a e
    by (auto simp: setData_def addData_def EIO_AfterAddData_def EIO_AfterSetData_def)
  with c s a show ?thesis by simp
qed

text \<open>Two bytes set on the sample tile and added to a fresh tile.\<close>

theorem setData_is_merge_into_fresh_witness:
  "arg [V8_Buffer layer_bytes] 0 = V8_Buffer layer_bytes \<and> layer_bytes \<noteq> []
   \<and> length [V8_Buffer layer_bytes] = 1
   \<and> clear points_tile = VectorTile 0 0 0 4096 128
   \<and> setDataSync_impl sample_lib [V8_Buffer layer_bytes] points_tile =
       addDataSync_impl sample_lib [V8_Buffer layer_bytes] (VectorTile 0 0 0 4096 128)
   \<and> addDataSync_impl sample_lib [V8_Buffer layer_bytes] (VectorTile 0 0 0 4096 128) =
       (None, (VectorTile 0 0 0 4096 128)\<lparr>vt_buffer := layer_bytes\<rparr>)"
proof -
  have a: "arg [V8_Buffer layer_bytes] 0 = V8_Buffer layer_bytes" by (simp add: arg_def)
  have b: "layer_bytes \<noteq> []" by (simp add: layer_bytes_def)
  have c: "length [V8_Buffer layer_bytes] = 1 \<or>
           IsFunction (arg [V8_Buffer layer_bytes] (int (length [V8_Buffer layer_bytes]) - 1))"
    by simp
  have d: "VectorTile (vt_z points_tile) (vt_x points_tile) (vt_y points_tile)
             (vt_tile_size points_tile) (vt_buffer_size points_tile) = VectorTile 0 0 0 4096 128"
    by (simp add: points_tile_def VectorTile_def)
  have e: "addDataSync_impl sample_lib [V8_Buffer layer_bytes] (VectorTile 0 0 0 4096 128) =
       (None, (VectorTile 0 0 0 4096 128)\<lparr>vt_buffer := layer_bytes\<rparr>)"
    by (simp add: addDataSync_impl_def arg_def layer_bytes_def sample_lib_def VectorTile_def)
  note t = setData_is_merge_into_fresh [OF a b c, of points_tile sample_lib, unfolded d]
  from t [THEN conjunct1] t [THEN conjunct2, THEN conjunct2, THEN conjunct1] a b e
  show ?thesis by simp
qed

subsection \<open>C9: the query of an empty tile\<close>

text \<open>
  Claim C9. For a tile whose \<open>is_empty\<close> holds, the query returns the empty list for
  every longitude, latitude, tolerance and layer name. The result is the same for every
  environment, also one whose projection, feature sets or sort would fail: none of them
  is consulted, no layer is scanned and nothing is thrown.
\<close>

theorem query_empty_tile:
  "is_empty d \<Longrightarrow> query_impl lib d lon lat tolerance layer_name = Inr []"
  by (simp add: query_impl_def)

text \<open>A tile fresh from the constructor is empty.\<close>

theorem query_empty_tile_witness:
  "is_empty (VectorTile 0 0 0 4096 128)
   \<and> query_impl sample_lib (VectorTile 0 0 0 4096 128) 0 0 1 ''places'' = Inr []"
proof -
  have e: "is_empty (VectorTile 0 0 0 4096 128)"
    by (simp add: is_empty_def VectorTile_def)
  from query_empty_tile [OF e] e show ?thesis by blast
qed

subsection \<open>C10: getData of a tile without bytes\<close>

lemma gzip_options: "getData_options gzip_call = Inr (True, 9, Z_RLE)"
  by (simp add: gzip_call_def getData_options_def arg_def getData_compression_def
        getData_level_def getData_strategy_def to_int32_def)

text \<open>
  Claim C10. Whenever the options of the call convert, the synchronous getData of a
  tile whose raw buffer has size zero returns a buffer of length zero, for every
  environment, also one whose compression would throw: the compression is not asked,
  whatever compression, level and strategy were requested. The compressed bytes are
  returned only for a raw size that is positive (and below the limit of node), when
  gzip was requested; without it the raw bytes are.
\<close>

theorem getData_empty_skips_compression:
  assumes "getData_options info = Inr (compress, level, strategy)"
  shows "(vt_buffer d = [] \<longrightarrow> getDataSync_impl lib info d = Inr [])
       \<and> (vt_buffer d \<noteq> [] \<and> length (vt_buffer d) < kMaxLength lib \<and> compress \<longrightarrow>
            getDataSync_impl lib info d =
              (case zlib_compress lib (vt_buffer d) True level strategy of
                 Inl what \<Rightarrow> Inl (TypeError what)
               | Inr compressed \<Rightarrow> Inr compressed))
       \<and> (vt_buffer d \<noteq> [] \<and> length (vt_buffer d) < kMaxLength lib \<and> \<not> compress \<longrightarrow>
            getDataSync_impl lib info d = Inr (vt_buffer d))"
  using assms by (simp add: getDataSync_impl_def)

text \<open>gzip at level 9 with strategy RLE, on a fresh tile and on the sample tile.\<close>

theorem getData_empty_skips_compression_witness:
  "getData_options gzip_call = Inr (True, 9, Z_RLE)
   \<and> vt_buffer (VectorTile 0 0 0 4096 128) = []
   \<and> getDataSync_impl sample_lib gzip_call (VectorTile 0 0 0 4096 128) = Inr []
   \<and> vt_buffer points_tile \<noteq> [] \<and> length (vt_buffer points_tile) < kMaxLength sample_lib
   \<and> getDataSync_impl sample_lib gzip_call points_tile = Inr [31, 139, 26, 0]"
proof -
  have e: "vt_buffer (VectorTile 0 0 0 4096 128) = []" by (simp add: VectorTile_def)
  have p: "vt_buffer points_tile \<noteq> []" "length (vt_buffer points_tile) < kMaxLength sample_lib"
    "zlib_compress sample_lib (vt_buffer points_tile) True 9 Z_RLE = Inr [31, 139, 26, 0]"
    by (simp_all add: points_tile_def sample_lib_def)
  from getData_empty_skips_compression [OF gzip_options, of "VectorTile 0 0 0 4096 128" sample_lib]
       getData_empty_skips_compression [OF gzip_options, of points_tile sample_lib]
       gzip_options e p
  show ?thesis by simp
qed

end
